theory Spec2Isabelle
  imports Complex_Main
begin

section \<open>The Surot extinction map (synthpop/_modules/extinction/surot.py)\<close>

text \<open>
  The class \<^verbatim>\<open>Surot\<close> keeps one active sight line (a flat numeric record read from
  the table file) and a cursor \<^verbatim>\<open>radius_ind\<close> into its radial bins.

  Conventions of the embedding:
  \<^item> a Python float is the real number it denotes. The bin lookup only compares and
    copies numbers, which is exact on floats; rounding inside the seam arithmetic and
    the distance computation is not modelled, and neither are NaN and infinities. A
    decimal literal denotes the nearest double: at the longitude seam, where this
    decides the result, the doubles are written out; in the concrete tables, whose
    entries are only copied or compared with numbers far from them, decimal fractions
    stand for them;
  \<^item> an attribute that starts as \<^verbatim>\<open>None\<close> is an \<open>option\<close>;
  \<^item> a raised exception is the \<open>Inl\<close> branch of a sum; the object after a raise is not
    modelled;
  \<^item> the table file is a parameter: the list of its rows, each already parsed into
    numbers (what \<^verbatim>\<open>np.fromstring(line, sep=',')\<close> gives for that line).
\<close>

subsection \<open>Exceptions and object state\<close>

datatype error = IndexError | ValueError

record surot =
  extinction_map_name :: string
  ref_wavelength :: real
  A_or_E_type :: string
  l_deg :: "real option"
  b_deg :: "real option"
  radius_ind :: "int option"
  near_bin_edge :: "real option"
  near_bin_edge_err :: "real option"
  extinction_in_map :: "real option"
  extinction_in_map_err :: "real option"
  all_coords :: "(real \<times> real) list"
  l_stepsize :: real
  sightline :: "real list"
  sightline_l_deg :: "real option"
  sightline_b_deg :: "real option"
  chi2_allstars :: "real option"
  chi2_giants :: "real option"
  number_of_bins :: "real option"
  A_Ks :: "real option"
  far_bin_edge :: "real option"
  far_bin_edge_ind :: "nat option"
  A_Ks_ind :: "nat option"

text \<open>
  \<^verbatim>\<open>__init__\<close>: every placeholder is \<^verbatim>\<open>None\<close>, the sight line is the empty list.
  \<open>fresh coords step\<close> is the object that \<^verbatim>\<open>__init__\<close> leaves for a coordinate array
  and a longitude step. The argument of \<open>Surot_init\<close> is the two-column coordinate
  array that \<^verbatim>\<open>np.genfromtxt\<close> returned; \<^verbatim>\<open>all_coords[1, 0]\<close> raises IndexError when it
  has fewer than two rows.
\<close>

definition fresh :: "(real \<times> real) list \<Rightarrow> real \<Rightarrow> surot" where
  "fresh coords step =
     \<lparr> extinction_map_name = ''Surot'',
       ref_wavelength = 2.152152,
       A_or_E_type = ''A_Ks'',
       l_deg = None,
       b_deg = None,
       radius_ind = None,
       near_bin_edge = None,
       near_bin_edge_err = None,
       extinction_in_map = None,
       extinction_in_map_err = None,
       all_coords = coords,
       l_stepsize = step,
       sightline = [],
       sightline_l_deg = None,
       sightline_b_deg = None,
       chi2_allstars = None,
       chi2_giants = None,
       number_of_bins = None,
       A_Ks = None,
       far_bin_edge = None,
       far_bin_edge_ind = None,
       A_Ks_ind = None \<rparr>"

definition Surot_init :: "(real \<times> real) list \<Rightarrow> error + surot" where
  "Surot_init coords =
     (if length coords < 2 then Inl IndexError
      else Inr (fresh coords (fst (coords ! 1) - fst (coords ! 0))))"

text \<open>Sequencing of calls that may raise: the first exception ends the computation.\<close>

definition bind_err :: "error + 'a \<Rightarrow> ('a \<Rightarrow> error + 'b) \<Rightarrow> error + 'b" where
  "bind_err m f = (case m of Inl e \<Rightarrow> Inl e | Inr x \<Rightarrow> f x)"

subsection \<open>Array primitives used by the class\<close>

text \<open>Subscripting \<^verbatim>\<open>a[i]\<close> with an integer: a negative index counts from the end,
  an index outside the array raises IndexError.\<close>

definition getitem :: "real list \<Rightarrow> int \<Rightarrow> error + real" where
  "getitem a i =
     (if 0 \<le> i \<and> i < int (length a) then Inr (a ! nat i)
      else if - int (length a) \<le> i \<and> i < 0 then Inr (a ! nat (int (length a) + i))
      else Inl IndexError)"

text \<open>The slice \<^verbatim>\<open>a[0::k]\<close> (every \<open>k\<close>-th element, \<open>k > 0\<close>) and the far-edge
  sequence \<^verbatim>\<open>self.sightline[5::4]\<close>.\<close>

fun slice_step :: "nat \<Rightarrow> 'a list \<Rightarrow> 'a list" where
  "slice_step k [] = []"
| "slice_step k (x # xs) = x # slice_step k (drop (k - 1) xs)"

definition far_edges :: "real list \<Rightarrow> real list" where
  "far_edges sl = slice_step 4 (drop 5 sl)"

text \<open>\<^verbatim>\<open>np.diff\<close>: successive differences \<^verbatim>\<open>a[i+1] - a[i]\<close>.\<close>

fun np_diff :: "real list \<Rightarrow> real list" where
  "np_diff (x # y # ys) = (y - x) # np_diff (y # ys)"
| "np_diff ys = []"

text \<open>
  \<^verbatim>\<open>np.digitize(x, bins)\<close> with the default \<^verbatim>\<open>right=False\<close>. NumPy first classifies
  \<^verbatim>\<open>bins\<close>: 1 when non-decreasing (this includes constant and empty arrays), -1 when
  non-increasing, 0 otherwise, and raises ValueError for 0. For increasing bins the
  result is \<^verbatim>\<open>searchsorted(bins, x, side='right')\<close>, the index \<open>i\<close> with
  \<^verbatim>\<open>bins[i-1] <= x < bins[i]\<close>; for decreasing bins it is
  \<^verbatim>\<open>len(bins) - searchsorted(bins[::-1], x, side='right')\<close>.
\<close>

definition monotonicity :: "real list \<Rightarrow> int" where
  "monotonicity bins = (if sorted bins then 1 else if sorted (rev bins) then - 1 else 0)"

definition searchsorted_right :: "real list \<Rightarrow> real \<Rightarrow> nat" where
  "searchsorted_right a v = length (takeWhile (\<lambda>e. e \<le> v) a)"

definition digitize :: "real \<Rightarrow> real list \<Rightarrow> error + nat" where
  "digitize x bins =
     (let mono = monotonicity bins in
      if mono = 0 then Inl ValueError
      else if mono = - 1 then Inr (length bins - searchsorted_right (rev bins) x)
      else Inr (searchsorted_right bins x))"

text \<open>\<^verbatim>\<open>argmin\<close>: the index of the first occurrence of the minimum; ValueError on an
  empty array.\<close>

fun argmin_from :: "nat \<Rightarrow> real \<Rightarrow> nat \<Rightarrow> real list \<Rightarrow> nat" where
  "argmin_from best bv i [] = best"
| "argmin_from best bv i (x # xs) =
     (if x < bv then argmin_from i x (Suc i) xs else argmin_from best bv (Suc i) xs)"

definition argmin :: "real list \<Rightarrow> error + nat" where
  "argmin ds = (case ds of [] \<Rightarrow> Inl ValueError | d # ds' \<Rightarrow> Inr (argmin_from 0 d 1 ds'))"

text \<open>\<^verbatim>\<open>scipy.spatial.distance.cdist\<close> of one query point against the grid:
  the Euclidean distances in (l, b) degree space.\<close>

definition cdist :: "real \<times> real \<Rightarrow> (real \<times> real) list \<Rightarrow> real list" where
  "cdist q ps = map (\<lambda>p. sqrt ((fst q - fst p)\<^sup>2 + (snd q - snd p)\<^sup>2)) ps"

text \<open>\<^verbatim>\<open>linecache.getline\<close> is 1-indexed and gives the empty line when the line does
  not exist; the empty line parses to the empty array.\<close>

definition getline :: "real list list \<Rightarrow> nat \<Rightarrow> real list" where
  "getline rows n = (if 1 \<le> n \<and> n \<le> length rows then rows ! (n - 1) else [])"

subsection \<open>update_extinction_in_map\<close>

text \<open>One guarded read \<^verbatim>\<open>self.sightline[off + radius_ind * 4] if radius_ind > 0 else 0\<close>.\<close>

definition read_bin :: "real list \<Rightarrow> int \<Rightarrow> int \<Rightarrow> error + real" where
  "read_bin sl off ri = (if ri > 0 then getitem sl (off + ri * 4) else Inr 0)"

text \<open>The subscripts of \<^verbatim>\<open>self.sightline\<close> that lines 129 to 133 evaluate for a resolved
  index, in the order of evaluation.\<close>

definition bin_subscripts :: "int \<Rightarrow> int list" where
  "bin_subscripts ri = (if ri > 0 then [5 + ri * 4, 7 + ri * 4, 8 + ri * 4, 6 + ri * 4] else [])"

text \<open>The resolved bin index of line 118: the digitize result minus one.\<close>

definition resolve_ind :: "real \<Rightarrow> real list \<Rightarrow> error + int" where
  "resolve_ind radius sl = bind_err (digitize radius (far_edges sl)) (\<lambda>d. Inr (int d - 1))"

text \<open>The method returns 0 (unchanged) or 1 (updated) together with the new state.\<close>

definition update_extinction_in_map :: "real \<Rightarrow> bool \<Rightarrow> surot \<Rightarrow> error + (nat \<times> surot)" where
  "update_extinction_in_map radius force s =
     bind_err (resolve_ind radius (sightline s)) (\<lambda>ri.
       if Some ri = radius_ind s \<and> \<not> force then Inr (0, s)
       else
         bind_err (read_bin (sightline s) 5 ri) (\<lambda>nbe.
         bind_err (read_bin (sightline s) 7 ri) (\<lambda>nbe_err.
         bind_err (read_bin (sightline s) 8 ri) (\<lambda>ext_err.
         bind_err (read_bin (sightline s) 6 ri) (\<lambda>ext.
           Inr (1, s\<lparr> radius_ind := Some ri,
                     near_bin_edge := Some nbe,
                     near_bin_edge_err := Some nbe_err,
                     extinction_in_map_err := Some ext_err,
                     extinction_in_map := Some ext \<rparr>))))))"

subsection \<open>find_sightline, init_sightline, update_line_of_sight\<close>

text \<open>Lines 185 to 195: the row index of the nearest reference sight line.\<close>

definition min_dist_arg :: "surot \<Rightarrow> error + nat" where
  "min_dist_arg s =
     (case l_deg s of
        None \<Rightarrow> argmin (cdist (0, 0) (all_coords s))
      | Some l \<Rightarrow>
          (let l' = (if l > 180 - l_stepsize s / 2 then l - 360 else l) in
           (case b_deg s of
              None \<Rightarrow> Inl ValueError
            | Some b \<Rightarrow> argmin (cdist (l', b) (all_coords s)))))"

text \<open>Lines 203 to 207: when some successive difference of the far edges is negative,
  the last four numbers are cut off (\<^verbatim>\<open>self.sightline[:-4]\<close>).\<close>

definition repair_sightline :: "real list \<Rightarrow> real list" where
  "repair_sightline sl =
     (if list_ex (\<lambda>d. d < 0) (np_diff (far_edges sl)) then take (length sl - 4) sl else sl)"

definition find_sightline :: "real list list \<Rightarrow> surot \<Rightarrow> error + surot" where
  "find_sightline rows s =
     bind_err (min_dist_arg s) (\<lambda>i.
       Inr (s\<lparr> sightline := repair_sightline (getline rows (i + 1)) \<rparr>))"

definition init_sightline :: "surot \<Rightarrow> error + surot" where
  "init_sightline s =
     bind_err (getitem (sightline s) 0) (\<lambda>v0.
     bind_err (getitem (sightline s) 1) (\<lambda>v1.
     bind_err (getitem (sightline s) 2) (\<lambda>v2.
     bind_err (getitem (sightline s) 3) (\<lambda>v3.
     bind_err (getitem (sightline s) 4) (\<lambda>v4.
     bind_err (getitem (sightline s) 5) (\<lambda>v5.
     bind_err (update_extinction_in_map 0 True
                 (s\<lparr> sightline_l_deg := Some v0,
                     sightline_b_deg := Some v1,
                     chi2_allstars := Some v2,
                     chi2_giants := Some v3,
                     number_of_bins := Some v4,
                     radius_ind := Some 0,
                     near_bin_edge := Some 0,
                     A_Ks := Some 0,
                     far_bin_edge := Some v5,
                     far_bin_edge_ind := Some 5,
                     A_Ks_ind := Some 6 \<rparr>))
       (\<lambda>r. Inr (snd r))))))))"

definition update_line_of_sight :: "real list list \<Rightarrow> real \<Rightarrow> real \<Rightarrow> surot \<Rightarrow> error + surot" where
  "update_line_of_sight rows l b s =
     bind_err (find_sightline rows (s\<lparr> l_deg := Some l, b_deg := Some b \<rparr>)) init_sightline"

subsection \<open>Call sequences and reachable states\<close>

text \<open>What the driver reads after resolving a distance: the cached extinction value
  and its error.\<close>

definition resolved_extinction :: "real \<Rightarrow> surot \<Rightarrow> error + (real option \<times> real option)" where
  "resolved_extinction radius s =
     bind_err (update_extinction_in_map radius False s) (\<lambda>r.
       Inr (extinction_in_map (snd r), extinction_in_map_err (snd r)))"

text \<open>The driver's sequence for one star: set the sight line, then resolve the
  extinction at a distance.\<close>

definition set_then_resolve ::
    "real list list \<Rightarrow> real \<Rightarrow> real \<Rightarrow> real \<Rightarrow> surot \<Rightarrow> error + (real option \<times> real option)" where
  "set_then_resolve rows l b d s =
     bind_err (update_line_of_sight rows l b s) (resolved_extinction d)"

text \<open>Successive calls \<^verbatim>\<open>update_extinction_in_map(r)\<close> on one object for the radii of a
  list, collecting the return codes.\<close>

fun run_updates :: "real list \<Rightarrow> surot \<Rightarrow> error + nat list" where
  "run_updates [] s = Inr []"
| "run_updates (r # rs) s =
     bind_err (update_extinction_in_map r False s) (\<lambda>res.
     bind_err (run_updates rs (snd res)) (\<lambda>cs. Inr (fst res # cs)))"

text \<open>A state has an active profile when it was produced by \<^verbatim>\<open>update_line_of_sight\<close>
  and any number of \<^verbatim>\<open>update_extinction_in_map\<close> calls that returned.\<close>

inductive active :: "real list list \<Rightarrow> surot \<Rightarrow> bool" for rows :: "real list list" where
  active_load: "update_line_of_sight rows l b s = Inr s' \<Longrightarrow> active rows s'"
| active_update: "active rows s \<Longrightarrow> update_extinction_in_map radius force s = Inr (c, s')
     \<Longrightarrow> active rows s'"

text \<open>The cached values agree with the cursor: they are what lines 129 to 133 compute
  for the cached \<^verbatim>\<open>radius_ind\<close> on the stored sight line.\<close>

definition cache_coherent :: "surot \<Rightarrow> bool" where
  "cache_coherent s =
     (case radius_ind s of
        None \<Rightarrow> False
      | Some ri \<Rightarrow>
          map_option Inr (near_bin_edge s) = Some (read_bin (sightline s) 5 ri) \<and>
          map_option Inr (near_bin_edge_err s) = Some (read_bin (sightline s) 7 ri) \<and>
          map_option Inr (extinction_in_map_err s) = Some (read_bin (sightline s) 8 ri) \<and>
          map_option Inr (extinction_in_map s) = Some (read_bin (sightline s) 6 ri))"

subsection \<open>Concrete tables\<close>

text \<open>
  The scenario grid: two sight lines at (10, 0) and (20, 0), so the longitude step is
  10. Line 1 has the two bins (5, 0.1, 0.2, 0.01) and (10, 0.1, 0.5, 0.02); line 2 has
  three bins whose far edges are 1, 2, 1.5, the defect that the repair removes.
\<close>

definition scenario_coords :: "(real \<times> real) list" where
  "scenario_coords = [(10, 0), (20, 0)]"

definition scenario_rows :: "real list list" where
  "scenario_rows =
     [[10, 0, 1, 1, 2, 5, 1/10, 1/5, 1/100, 10, 1/10, 1/2, 1/50],
      [20, 0, 1, 1, 3, 1, 1/10, 1/5, 1/100, 2, 1/10, 1/2, 1/50, 3/2, 1/10, 9/10, 3/100]]"

definition scenario_start :: surot where
  "scenario_start = fresh scenario_coords 10"

text \<open>The object after \<^verbatim>\<open>update_line_of_sight(11.0, 0.5)\<close> on the scenario table.\<close>

definition scenario_loaded :: surot where
  "scenario_loaded =
     scenario_start
       \<lparr> l_deg := Some 11,
         b_deg := Some (1/2),
         radius_ind := Some (- 1),
         near_bin_edge := Some 0,
         near_bin_edge_err := Some 0,
         extinction_in_map := Some 0,
         extinction_in_map_err := Some 0,
         sightline := [10, 0, 1, 1, 2, 5, 1/10, 1/5, 1/100, 10, 1/10, 1/2, 1/50],
         sightline_l_deg := Some 10,
         sightline_b_deg := Some 0,
         chi2_allstars := Some 1,
         chi2_giants := Some 1,
         number_of_bins := Some 2,
         A_Ks := Some 0,
         far_bin_edge := Some 5,
         far_bin_edge_ind := Some 5,
         A_Ks_ind := Some 6 \<rparr>"

text \<open>A table whose nearest line to (10, 0) holds a single bin (5, 0.1, 0.2, 0.01), and
  the object after \<^verbatim>\<open>update_line_of_sight(10.0, 0.0)\<close> on it.\<close>

definition single_rows :: "real list list" where
  "single_rows =
     [[10, 0, 1, 1, 1, 5, 1/10, 1/5, 1/100],
      [20, 0, 1, 1, 1, 5, 1/10, 1/5, 1/100]]"

definition single_loaded :: surot where
  "single_loaded =
     scenario_start
       \<lparr> l_deg := Some 10,
         b_deg := Some 0,
         radius_ind := Some (- 1),
         near_bin_edge := Some 0,
         near_bin_edge_err := Some 0,
         extinction_in_map := Some 0,
         extinction_in_map_err := Some 0,
         sightline := [10, 0, 1, 1, 1, 5, 1/10, 1/5, 1/100],
         sightline_l_deg := Some 10,
         sightline_b_deg := Some 0,
         chi2_allstars := Some 1,
         chi2_giants := Some 1,
         number_of_bins := Some 1,
         A_Ks := Some 0,
         far_bin_edge := Some 5,
         far_bin_edge_ind := Some 5,
         A_Ks_ind := Some 6 \<rparr>"

text \<open>The object after \<^verbatim>\<open>update_line_of_sight(19.0, 0.0)\<close> on the scenario table: line 2
  is loaded and repaired.\<close>

definition repaired_loaded :: surot where
  "repaired_loaded =
     scenario_start
       \<lparr> l_deg := Some 19,
         b_deg := Some 0,
         radius_ind := Some (- 1),
         near_bin_edge := Some 0,
         near_bin_edge_err := Some 0,
         extinction_in_map := Some 0,
         extinction_in_map_err := Some 0,
         sightline := [20, 0, 1, 1, 3, 1, 1/10, 1/5, 1/100, 2, 1/10, 1/2, 1/50],
         sightline_l_deg := Some 20,
         sightline_b_deg := Some 0,
         chi2_allstars := Some 1,
         chi2_giants := Some 1,
         number_of_bins := Some 3,
         A_Ks := Some 0,
         far_bin_edge := Some 1,
         far_bin_edge_ind := Some 5,
         A_Ks_ind := Some 6 \<rparr>"

text \<open>A table whose first line has far edges 5, 3, 1. The repair cuts the last bin and
  leaves the decreasing edges 5, 3; \<open>falling_loaded\<close> is the object after
  \<^verbatim>\<open>update_line_of_sight(10.0, 0.0)\<close> on it.\<close>

definition falling_rows :: "real list list" where
  "falling_rows =
     [[10, 0, 1, 1, 3, 5, 1/10, 1/5, 1/100, 3, 3/4, 1/8, 1/16, 1, 1/10, 9/10, 3/100],
      [20, 0, 1, 1, 1, 5, 1/10, 1/5, 1/100]]"

definition falling_loaded :: surot where
  "falling_loaded =
     scenario_start
       \<lparr> l_deg := Some 10,
         b_deg := Some 0,
         radius_ind := Some 1,
         near_bin_edge := Some 3,
         near_bin_edge_err := Some (1/8),
         extinction_in_map := Some (3/4),
         extinction_in_map_err := Some (1/16),
         sightline := [10, 0, 1, 1, 3, 5, 1/10, 1/5, 1/100, 3, 3/4, 1/8, 1/16],
         sightline_l_deg := Some 10,
         sightline_b_deg := Some 0,
         chi2_allstars := Some 1,
         chi2_giants := Some 1,
         number_of_bins := Some 3,
         A_Ks := Some 0,
         far_bin_edge := Some 5,
         far_bin_edge_ind := Some 5,
         A_Ks_ind := Some 6 \<rparr>"

text \<open>
  The numbers that the decimal literals 359.9, 0.1 and 0.2 denote in Python: the
  nearest doubles, each a 53-bit integer times a power of two. The grid
  \<^verbatim>\<open>[(0, 0), (-0.2, 0)]\<close> has the longitude step \<^verbatim>\<open>-0.2\<close>; \<open>seam_start\<close> is the object
  \<^verbatim>\<open>__init__\<close> leaves for it.
\<close>

definition double_359_9 :: real where
  "double_359_9 = 6331427757385318 / 2 ^ 44"

definition double_0_1 :: real where
  "double_0_1 = 7205759403792794 / 2 ^ 56"

definition double_0_2 :: real where
  "double_0_2 = 7205759403792794 / 2 ^ 55"


section \<open>Basic facts about the primitives\<close>

lemma bind_err_simps [simp]: "bind_err (Inl e) f = Inl e" "bind_err (Inr x) f = f x"
  by (simp_all add: bind_err_def)

lemma bind_err_Inr_iff: "bind_err m f = Inr y \<longleftrightarrow> (\<exists>x. m = Inr x \<and> f x = Inr y)"
  by (cases m) simp_all

subsection \<open>The strided slice\<close>

lemma length_slice_step: "0 < k \<Longrightarrow> length (slice_step k xs) = (length xs + k - 1) div k"
proof (induction k xs rule: slice_step.induct)
  case (1 k)
  then show ?case by simp
next
  case (2 k x xs)
  show ?case
  proof (cases "length xs < k - 1")
    case True
    with 2 show ?thesis by simp
  next
    case False
    with 2 have "length (slice_step k (drop (k - 1) xs)) = length xs div k"
      by simp
    then have "length (slice_step k (x # xs)) = Suc (length xs div k)"
      by simp
    also have "\<dots> = (length xs + k) div k"
      using 2(2) by simp
    finally show ?thesis using 2(2) by simp
  qed
qed

lemma nth_slice_step:
  "0 < k \<Longrightarrow> i < length (slice_step k xs) \<Longrightarrow> slice_step k xs ! i = xs ! (i * k)"
proof (induction k xs arbitrary: i rule: slice_step.induct)
  case (1 k)
  then show ?case by simp
next
  case (2 k x xs)
  show ?case
  proof (cases i)
    case 0
    then show ?thesis by simp
  next
    case (Suc j)
    with 2 have j: "j < length (slice_step k (drop (k - 1) xs))" by simp
    with 2 have "slice_step k (drop (k - 1) xs) ! j = drop (k - 1) xs ! (j * k)" by simp
    moreover have "k - 1 \<le> length xs" using j by (cases "k - 1 \<le> length xs") auto
    ultimately have "slice_step k (drop (k - 1) xs) ! j = xs ! (k - 1 + j * k)"
      by simp
    moreover have "Suc j * k = Suc (k - 1 + j * k)" using 2(2) by simp
    ultimately show ?thesis using Suc by simp
  qed
qed

lemma length_far_edges: "length sl = 5 + 4 * n \<Longrightarrow> length (far_edges sl) = n"
  by (simp add: far_edges_def length_slice_step)

lemma far_edges_bound: "i < length (far_edges sl) \<Longrightarrow> 5 + 4 * i < length sl"
proof -
  assume i: "i < length (far_edges sl)"
  then have "i < (length sl - 5 + 3) div 4" by (simp add: far_edges_def length_slice_step)
  then show ?thesis by arith
qed

lemma nth_far_edges: "i < length (far_edges sl) \<Longrightarrow> far_edges sl ! i = sl ! (5 + 4 * i)"
proof -
  assume i: "i < length (far_edges sl)"
  then have "far_edges sl ! i = drop 5 sl ! (i * 4)"
    by (simp add: far_edges_def nth_slice_step)
  moreover have "5 \<le> length sl" using far_edges_bound [OF i] by simp
  ultimately show ?thesis by (simp add: mult.commute)
qed

subsection \<open>The two outcomes of update_extinction_in_map\<close>

lemma read_bin_nonpos [simp]: "ri \<le> 0 \<Longrightarrow> read_bin sl off ri = Inr 0"
  by (simp add: read_bin_def)

lemma update_unchanged:
  "resolve_ind radius (sightline s) = Inr ri \<Longrightarrow> radius_ind s = Some ri
     \<Longrightarrow> update_extinction_in_map radius False s = Inr (0, s)"
  by (simp add: update_extinction_in_map_def)

lemma update_changed:
  assumes "resolve_ind radius (sightline s) = Inr ri"
    and "radius_ind s \<noteq> Some ri \<or> force"
    and "read_bin (sightline s) 5 ri = Inr nbe"
    and "read_bin (sightline s) 7 ri = Inr nbe_err"
    and "read_bin (sightline s) 8 ri = Inr ext_err"
    and "read_bin (sightline s) 6 ri = Inr ext"
  shows "update_extinction_in_map radius force s =
     Inr (1, s\<lparr> radius_ind := Some ri, near_bin_edge := Some nbe,
                near_bin_edge_err := Some nbe_err, extinction_in_map_err := Some ext_err,
                extinction_in_map := Some ext \<rparr>)"
  using assms by (auto simp add: update_extinction_in_map_def)

lemma update_Inr_D:
  assumes "update_extinction_in_map radius force s = Inr (c, s')"
  shows "\<exists>ri. resolve_ind radius (sightline s) = Inr ri \<and>
     ((radius_ind s = Some ri \<and> \<not> force \<and> c = 0 \<and> s' = s) \<or>
      ((radius_ind s \<noteq> Some ri \<or> force) \<and> c = 1 \<and>
       (\<exists>nbe nbe_err ext_err ext.
          read_bin (sightline s) 5 ri = Inr nbe \<and>
          read_bin (sightline s) 7 ri = Inr nbe_err \<and>
          read_bin (sightline s) 8 ri = Inr ext_err \<and>
          read_bin (sightline s) 6 ri = Inr ext \<and>
          s' = s\<lparr> radius_ind := Some ri, near_bin_edge := Some nbe,
                near_bin_edge_err := Some nbe_err, extinction_in_map_err := Some ext_err,
                extinction_in_map := Some ext \<rparr>)))"
  using assms
  by (auto simp: update_extinction_in_map_def bind_err_Inr_iff split: if_splits)

lemma update_sightline:
  "update_extinction_in_map radius force s = Inr (c, s') \<Longrightarrow> sightline s' = sightline s"
  by (drule update_Inr_D) auto

lemma update_radius_ind:
  "update_extinction_in_map radius force s = Inr (c, s')
     \<Longrightarrow> map_option Inr (radius_ind s') = Some (resolve_ind radius (sightline s))"
  by (drule update_Inr_D) auto

lemma update_coherent:
  "update_extinction_in_map radius force s = Inr (c, s') \<Longrightarrow> c = 1 \<or> cache_coherent s
     \<Longrightarrow> cache_coherent s'"
  by (drule update_Inr_D) (auto simp: cache_coherent_def)

lemma init_sightline_coherent: "init_sightline s = Inr s' \<Longrightarrow> cache_coherent s'"
  by (auto simp: init_sightline_def bind_err_Inr_iff cache_coherent_def dest!: update_Inr_D)

lemma active_coherent: "active rows s \<Longrightarrow> cache_coherent s"
proof (induction rule: active.induct)
  case (active_load l b s s')
  then show ?case
    by (auto simp: update_line_of_sight_def bind_err_Inr_iff dest: init_sightline_coherent)
next
  case (active_update s radius force c s')
  then show ?case by (auto dest: update_coherent)
qed

subsection \<open>Digitizing into sorted far edges\<close>

lemma digitize_sorted: "sorted bins \<Longrightarrow> digitize x bins = Inr (searchsorted_right bins x)"
  by (simp add: digitize_def monotonicity_def)

lemma searchsorted_right_eq:
  assumes "i \<le> length a" and "\<And>j. j < i \<Longrightarrow> a ! j \<le> v" and "i < length a \<Longrightarrow> v < a ! i"
  shows "searchsorted_right a v = i"
proof -
  have "takeWhile (\<lambda>e. e \<le> v) a = take i a"
    using assms by (intro takeWhile_eq_take_P_nth) auto
  then show ?thesis using assms(1) by (simp add: searchsorted_right_def)
qed

lemma searchsorted_right_sorted:
  assumes "sorted a" and "i \<le> length a" and "0 < i \<Longrightarrow> a ! (i - 1) \<le> v"
    and "i < length a \<Longrightarrow> v < a ! i"
  shows "searchsorted_right a v = i"
proof (rule searchsorted_right_eq)
  show "i \<le> length a" by fact
  show "a ! j \<le> v" if "j < i" for j
  proof -
    from that assms(2) have "a ! j \<le> a ! (i - 1)"
      using assms(1) by (intro sorted_nth_mono) auto
    with that assms(3) show ?thesis by simp
  qed
  show "i < length a \<Longrightarrow> v < a ! i" by fact
qed

lemma resolve_ind_sorted:
  assumes "sorted (far_edges sl)" and "i \<le> length (far_edges sl)"
    and "0 < i \<Longrightarrow> far_edges sl ! (i - 1) \<le> r"
    and "i < length (far_edges sl) \<Longrightarrow> r < far_edges sl ! i"
  shows "resolve_ind r sl = Inr (int i - 1)"
  using searchsorted_right_sorted [OF assms] assms(1)
  by (simp add: resolve_ind_def digitize_sorted)

lemma resolve_ind_below_first:
  assumes "sorted (far_edges sl)" and "far_edges sl \<noteq> []" and "r < hd (far_edges sl)"
  shows "resolve_ind r sl = Inr (- 1)"
  using resolve_ind_sorted [of sl 0 r] assms by (simp add: hd_conv_nth)

lemma resolve_ind_beyond_last:
  assumes "sorted (far_edges sl)" and "far_edges sl \<noteq> []" and "last (far_edges sl) \<le> r"
  shows "resolve_ind r sl = Inr (int (length (far_edges sl)) - 1)"
  using resolve_ind_sorted [of sl "length (far_edges sl)" r] assms by (simp add: last_conv_nth)

text \<open>The facts above are for non-decreasing far edges, the invariant of a sight-line
  profile. The repair cuts one bin only, so a row whose far edges keep falling stays
  decreasing; \<^verbatim>\<open>np.digitize\<close> then counts from the other end, and radius 0 resolves to
  the last bin instead of index -1. The results on the near end of a profile therefore
  state the invariant as a hypothesis.\<close>

lemma resolve_ind_decreasing_profile:
  "repair_sightline [0, 0, 1, 1, 3, 5, a1, b1, c1, 3, a2, b2, c2, 1, a3, b3, c3]
     = [0, 0, 1, 1, 3, 5, a1, b1, c1, 3, a2, b2, c2]
   \<and> resolve_ind 0 [0, 0, 1, 1, 3, 5, a1, b1, c1, 3, a2, b2, c2] = Inr 1"
  by (simp add: repair_sightline_def far_edges_def resolve_ind_def digitize_def
      monotonicity_def searchsorted_right_def)

subsection \<open>States with an active profile\<close>

lemma getitem_Inr_nat: "getitem a (int k) = Inr v \<longleftrightarrow> k < length a \<and> v = a ! k"
  by (auto simp: getitem_def)

lemma getitem_nat: "k < length a \<Longrightarrow> getitem a (int k) = Inr (a ! k)"
  by (simp add: getitem_def)

lemma init_sightline_sightline:
  "init_sightline s = Inr s' \<Longrightarrow> sightline s' = sightline s \<and> 6 \<le> length (sightline s)"
  using getitem_Inr_nat [of "sightline s" 5]
  by (auto simp: init_sightline_def bind_err_Inr_iff dest!: update_sightline)

lemma active_length: "active rows s \<Longrightarrow> 6 \<le> length (sightline s)"
proof (induction rule: active.induct)
  case (active_load l b s s')
  then show ?case
    by (auto simp: update_line_of_sight_def bind_err_Inr_iff dest: init_sightline_sightline)
next
  case (active_update s radius force c s')
  then show ?case by (auto dest: update_sightline)
qed

lemma far_edges_nonempty:
  "6 \<le> length sl \<Longrightarrow> far_edges sl \<noteq> [] \<and> hd (far_edges sl) = sl ! 5"
proof -
  assume l: "6 \<le> length sl"
  then have "0 < length (far_edges sl)" by (simp add: far_edges_def length_slice_step)
  then show ?thesis using nth_far_edges [of 0 sl] by (simp add: hd_conv_nth)
qed

text \<open>In a state whose cache agrees with its cursor, a call that can read its four
  numbers returns, and afterwards the cache holds exactly those numbers, whether the
  call took the short cut or not.\<close>

lemma update_coherent_result:
  assumes "cache_coherent s"
    and "resolve_ind radius (sightline s) = Inr ri"
    and "read_bin (sightline s) 5 ri = Inr nbe"
    and "read_bin (sightline s) 7 ri = Inr nbe_err"
    and "read_bin (sightline s) 8 ri = Inr ext_err"
    and "read_bin (sightline s) 6 ri = Inr ext"
  shows "\<exists>c s'. update_extinction_in_map radius force s = Inr (c, s') \<and>
           (c = 0 \<longleftrightarrow> radius_ind s = Some ri \<and> \<not> force) \<and>
           sightline s' = sightline s \<and>
           radius_ind s' = Some ri \<and>
           near_bin_edge s' = Some nbe \<and>
           near_bin_edge_err s' = Some nbe_err \<and>
           extinction_in_map s' = Some ext \<and>
           extinction_in_map_err s' = Some ext_err"
proof (cases "radius_ind s = Some ri \<and> \<not> force")
  case True
  with assms(2) have "update_extinction_in_map radius force s = Inr (0, s)"
    by (simp add: update_unchanged)
  moreover from True assms have "near_bin_edge s = Some nbe" "near_bin_edge_err s = Some nbe_err"
    "extinction_in_map s = Some ext" "extinction_in_map_err s = Some ext_err"
    by (auto simp: cache_coherent_def)
  ultimately show ?thesis using True by simp
next
  case False
  then have "radius_ind s \<noteq> Some ri \<or> force" by simp
  from update_changed [OF assms(2) this assms(3-6)] False show ?thesis by simp
qed

text \<open>The subscripts listed by \<open>bin_subscripts\<close> are the reads of a call that does not
  take the short cut: such a call returns exactly when each of them is in range.\<close>

lemma update_reads:
  assumes "resolve_ind radius (sightline s) = Inr ri" and "radius_ind s \<noteq> Some ri \<or> force"
  shows "(\<exists>c s'. update_extinction_in_map radius force s = Inr (c, s')) \<longleftrightarrow>
         list_all (\<lambda>k. \<exists>v. getitem (sightline s) k = Inr v) (bin_subscripts ri)"
proof (cases "0 < ri")
  case True
  have rb: "read_bin (sightline s) off ri = getitem (sightline s) (off + ri * 4)" for off
    using True by (simp add: read_bin_def)
  show ?thesis
  proof
    assume "\<exists>c s'. update_extinction_in_map radius force s = Inr (c, s')"
    then obtain c s' where "update_extinction_in_map radius force s = Inr (c, s')" by blast
    from update_Inr_D [OF this] assms show
      "list_all (\<lambda>k. \<exists>v. getitem (sightline s) k = Inr v) (bin_subscripts ri)"
      using True by (auto simp: bin_subscripts_def rb)
  next
    assume "list_all (\<lambda>k. \<exists>v. getitem (sightline s) k = Inr v) (bin_subscripts ri)"
    with True obtain a b c d where
      "read_bin (sightline s) 5 ri = Inr a" "read_bin (sightline s) 7 ri = Inr b"
      "read_bin (sightline s) 8 ri = Inr c" "read_bin (sightline s) 6 ri = Inr d"
      by (auto simp: bin_subscripts_def rb)
    from update_changed [OF assms this] show
      "\<exists>c s'. update_extinction_in_map radius force s = Inr (c, s')" by blast
  qed
next
  case False
  then have z: "read_bin (sightline s) off ri = Inr 0" for off by simp
  from update_changed [OF assms z z z z] False show ?thesis
    by (simp add: bin_subscripts_def)
qed

subsection \<open>Evaluating the scenario\<close>

lemmas eval_defs =
  update_line_of_sight_def find_sightline_def min_dist_arg_def argmin_def cdist_def
  getline_def repair_sightline_def far_edges_def init_sightline_def getitem_def
  update_extinction_in_map_def resolve_ind_def digitize_def monotonicity_def
  searchsorted_right_def read_bin_def Surot_init_def set_then_resolve_def
  resolved_extinction_def

lemma scenario_start_init: "Surot_init scenario_coords = Inr scenario_start"
  by (simp add: Surot_init_def scenario_coords_def scenario_start_def)

lemma scenario_loaded_eq:
  "update_line_of_sight scenario_rows 11 (1/2) scenario_start = Inr scenario_loaded"
  by (simp add: eval_defs scenario_rows_def scenario_start_def scenario_loaded_def
      scenario_coords_def fresh_def)

lemma scenario_active: "active scenario_rows scenario_loaded"
  by (rule active_load [OF scenario_loaded_eq])

lemma scenario_sightline:
  "sightline scenario_loaded = [10, 0, 1, 1, 2, 5, 1/10, 1/5, 1/100, 10, 1/10, 1/2, 1/50]"
  by (simp add: scenario_loaded_def)

lemma scenario_far_edges: "far_edges (sightline scenario_loaded) = [5, 10]"
  by (simp add: scenario_sightline far_edges_def)

section \<open>The bin cursor\<close>

subsection \<open>Return codes of a run of queries\<close>

lemma run_updates_codes:
  "run_updates rs s = Inr cs \<Longrightarrow>
     length cs = length rs \<and>
     (rs \<noteq> [] \<longrightarrow>
        (cs ! 0 = 0 \<longleftrightarrow>
           map_option Inr (radius_ind s) = Some (resolve_ind (rs ! 0) (sightline s))) \<and>
        (cs ! 0 = 1 \<longleftrightarrow>
           map_option Inr (radius_ind s) \<noteq> Some (resolve_ind (rs ! 0) (sightline s)))) \<and>
     (\<forall>j. Suc j < length rs \<longrightarrow>
        (cs ! Suc j = 0 \<longleftrightarrow>
           resolve_ind (rs ! Suc j) (sightline s) = resolve_ind (rs ! j) (sightline s)) \<and>
        (cs ! Suc j = 1 \<longleftrightarrow>
           resolve_ind (rs ! Suc j) (sightline s) \<noteq> resolve_ind (rs ! j) (sightline s)))"
proof (induction rs arbitrary: s cs)
  case Nil
  then show ?case by simp
next
  case (Cons r rs)
  from Cons.prems obtain c s1 cs1 where
    u: "update_extinction_in_map r False s = Inr (c, s1)" and
    r: "run_updates rs s1 = Inr cs1" and cs: "cs = c # cs1"
    by (auto simp: bind_err_Inr_iff)
  note ih = Cons.IH [OF r]
  have sl: "sightline s1 = sightline s" by (rule update_sightline [OF u])
  have ri: "map_option Inr (radius_ind s1) = Some (resolve_ind r (sightline s))"
    by (rule update_radius_ind [OF u])
  from update_Inr_D [OF u] have first:
    "(c = 0 \<longleftrightarrow> map_option Inr (radius_ind s) = Some (resolve_ind r (sightline s)))
     \<and> (c = 1 \<longleftrightarrow> map_option Inr (radius_ind s) \<noteq> Some (resolve_ind r (sightline s)))"
    by auto
  have step: "(cs ! Suc j = 0 \<longleftrightarrow>
           resolve_ind ((r # rs) ! Suc j) (sightline s) = resolve_ind ((r # rs) ! j) (sightline s)) \<and>
        (cs ! Suc j = 1 \<longleftrightarrow>
           resolve_ind ((r # rs) ! Suc j) (sightline s) \<noteq> resolve_ind ((r # rs) ! j) (sightline s))"
    if "Suc j < length (r # rs)" for j
  proof (cases j)
    case 0
    with that have "rs \<noteq> []" by auto
    with ih ri sl 0 cs show ?thesis by auto
  next
    case (Suc j')
    with that ih sl cs show ?thesis by auto
  qed
  from ih cs first step show ?case by simp
qed

text \<open>
  C4. Cache short-circuit and frame. In every state, when a call
  \<^verbatim>\<open>update_extinction_in_map(radius, force=False)\<close> resolves the radius to the bin index
  that \<^verbatim>\<open>radius_ind\<close> already holds, the call returns 0 and the object is exactly
  the one before the call, every field included. Consequently, in a run of such calls
  on one sight line (for any sequence of radii, a strictly increasing one in
  particular), the first call returns 1 exactly when its resolved index differs from
  the cached one, and each later call returns 1 exactly when its resolved index
  differs from that of the call before it, and 0 otherwise.
\<close>

theorem update_short_circuit_frame:
  "(resolve_ind radius (sightline s) = Inr ri \<longrightarrow> radius_ind s = Some ri \<longrightarrow>
      update_extinction_in_map radius False s = Inr (0, s))
   \<and> (run_updates rs s = Inr cs \<longrightarrow>
        length cs = length rs \<and>
        (rs \<noteq> [] \<longrightarrow>
           (cs ! 0 = 1 \<longleftrightarrow>
              map_option Inr (radius_ind s) \<noteq> Some (resolve_ind (rs ! 0) (sightline s))) \<and>
           (cs ! 0 = 0 \<longleftrightarrow>
              map_option Inr (radius_ind s) = Some (resolve_ind (rs ! 0) (sightline s)))) \<and>
        (\<forall>j. Suc j < length rs \<longrightarrow>
           (cs ! Suc j = 1 \<longleftrightarrow>
              resolve_ind (rs ! Suc j) (sightline s) \<noteq> resolve_ind (rs ! j) (sightline s)) \<and>
           (cs ! Suc j = 0 \<longleftrightarrow>
              resolve_ind (rs ! Suc j) (sightline s) = resolve_ind (rs ! j) (sightline s))))"
proof (intro conjI impI)
  assume "resolve_ind radius (sightline s) = Inr ri" and "radius_ind s = Some ri"
  then show "update_extinction_in_map radius False s = Inr (0, s)"
    by (rule update_unchanged)
next
  assume r: "run_updates rs s = Inr cs"
  from run_updates_codes [OF r] show "length cs = length rs" by simp
next
  assume r: "run_updates rs s = Inr cs" and "rs \<noteq> []"
  with run_updates_codes [OF r] show
    "cs ! 0 = 1 \<longleftrightarrow>
       map_option Inr (radius_ind s) \<noteq> Some (resolve_ind (rs ! 0) (sightline s))"
    by simp
next
  assume r: "run_updates rs s = Inr cs" and "rs \<noteq> []"
  with run_updates_codes [OF r] show
    "cs ! 0 = 0 \<longleftrightarrow>
       map_option Inr (radius_ind s) = Some (resolve_ind (rs ! 0) (sightline s))"
    by simp
next
  assume r: "run_updates rs s = Inr cs"
  from run_updates_codes [OF r] show
    "\<forall>j. Suc j < length rs \<longrightarrow>
       (cs ! Suc j = 1 \<longleftrightarrow>
          resolve_ind (rs ! Suc j) (sightline s) \<noteq> resolve_ind (rs ! j) (sightline s)) \<and>
       (cs ! Suc j = 0 \<longleftrightarrow>
          resolve_ind (rs ! Suc j) (sightline s) = resolve_ind (rs ! j) (sightline s))"
    by blast
qed

theorem update_short_circuit_frame_witness:
  "resolve_ind 3 (sightline scenario_loaded) = Inr (- 1)
   \<and> radius_ind scenario_loaded = Some (- 1)
   \<and> update_extinction_in_map 3 False scenario_loaded = Inr (0, scenario_loaded)
   \<and> run_updates [3, 4, 7, 8, 12] scenario_loaded = Inr [0, 0, 1, 0, 1]
   \<and> resolve_ind 7 (sightline scenario_loaded) \<noteq> resolve_ind 4 (sightline scenario_loaded)
   \<and> resolve_ind 8 (sightline scenario_loaded) = resolve_ind 7 (sightline scenario_loaded)"
proof -
  have h1: "resolve_ind 3 (sightline scenario_loaded) = Inr (- 1)"
    by (simp add: scenario_sightline eval_defs)
  have h2: "radius_ind scenario_loaded = Some (- 1)"
    by (simp add: scenario_loaded_def)
  have h3: "run_updates [3, 4, 7, 8, 12] scenario_loaded = Inr [0, 0, 1, 0, 1]"
    by (simp add: scenario_loaded_def eval_defs)
  from update_short_circuit_frame
         [of 3 scenario_loaded "- 1" "[3, 4, 7, 8, 12]" "[0, 0, 1, 0, 1]"] h1 h2 h3
  have u: "update_extinction_in_map 3 False scenario_loaded = Inr (0, scenario_loaded)"
    and j: "\<forall>j. Suc j < length [3, 4, 7, 8, 12 :: real] \<longrightarrow>
       ([0, 0, 1, 0, 1 :: nat] ! Suc j = 1 \<longleftrightarrow>
          resolve_ind ([3, 4, 7, 8, 12] ! Suc j) (sightline scenario_loaded)
            \<noteq> resolve_ind ([3, 4, 7, 8, 12] ! j) (sightline scenario_loaded)) \<and>
       ([0, 0, 1, 0, 1 :: nat] ! Suc j = 0 \<longleftrightarrow>
          resolve_ind ([3, 4, 7, 8, 12] ! Suc j) (sightline scenario_loaded)
            = resolve_ind ([3, 4, 7, 8, 12] ! j) (sightline scenario_loaded))"
    by blast+
  from j [rule_format, of 1] have j1:
    "resolve_ind 7 (sightline scenario_loaded) \<noteq> resolve_ind 4 (sightline scenario_loaded)"
    by simp
  from j [rule_format, of 2] have j2:
    "resolve_ind 8 (sightline scenario_loaded) = resolve_ind 7 (sightline scenario_loaded)"
    by simp
  from h1 h2 h3 u j1 j2 show ?thesis by blast
qed

lemma falling_loaded_eq:
  "update_line_of_sight falling_rows 10 0 scenario_start = Inr falling_loaded"
  by (simp add: eval_defs falling_rows_def scenario_start_def falling_loaded_def
      scenario_coords_def fresh_def)

lemma falling_active: "active falling_rows falling_loaded"
  by (rule active_load [OF falling_loaded_eq])

lemma falling_sightline:
  "sightline falling_loaded = [10, 0, 1, 1, 3, 5, 1/10, 1/5, 1/100, 3, 3/4, 1/8, 1/16]"
  by (simp add: falling_loaded_def)

lemma falling_far_edges: "far_edges (sightline falling_loaded) = [5, 3]"
  by (simp add: falling_sightline far_edges_def)

lemma single_loaded_eq:
  "update_line_of_sight single_rows 10 0 scenario_start = Inr single_loaded"
  by (simp add: eval_defs single_rows_def scenario_start_def single_loaded_def
      scenario_coords_def fresh_def)

lemma single_active: "active single_rows single_loaded"
  by (rule active_load [OF single_loaded_eq])

subsection \<open>Zero extinction before the second far edge\<close>

text \<open>
  C2. Zero-extinction rule at the near end. In every state with an active profile, a
  call \<^verbatim>\<open>update_extinction_in_map(radius)\<close> (forced or not) whose resolved bin index is 0
  or negative returns, and afterwards \<^verbatim>\<open>near_bin_edge\<close>, its error,
  \<^verbatim>\<open>extinction_in_map\<close> and \<^verbatim>\<open>extinction_in_map_err\<close> are all zero. In particular, when
  the far edges are non-decreasing (the invariant of a sight-line profile) and the
  first far edge is strictly positive, a query at radius exactly 0 leaves the cached
  extinction value and error both zero.
\<close>

theorem zero_extinction_rule:
  assumes "active rows s"
  shows "(resolve_ind radius (sightline s) = Inr ri \<longrightarrow> ri \<le> 0 \<longrightarrow>
           (\<exists>c s'. update_extinction_in_map radius force s = Inr (c, s') \<and>
              radius_ind s' = Some ri \<and>
              near_bin_edge s' = Some 0 \<and> near_bin_edge_err s' = Some 0 \<and>
              extinction_in_map s' = Some 0 \<and> extinction_in_map_err s' = Some 0))
       \<and> (sorted (far_edges (sightline s)) \<longrightarrow> 0 < hd (far_edges (sightline s)) \<longrightarrow>
           (\<exists>c s'. update_extinction_in_map 0 force s = Inr (c, s') \<and>
              extinction_in_map s' = Some 0 \<and> extinction_in_map_err s' = Some 0))"
proof (intro conjI impI)
  note coh = active_coherent [OF assms]
  {
    assume r: "resolve_ind radius (sightline s) = Inr ri" and le: "ri \<le> 0"
    from update_coherent_result [OF coh r, of 0 0 0 0 force] le
    show "\<exists>c s'. update_extinction_in_map radius force s = Inr (c, s') \<and>
              radius_ind s' = Some ri \<and>
              near_bin_edge s' = Some 0 \<and> near_bin_edge_err s' = Some 0 \<and>
              extinction_in_map s' = Some 0 \<and> extinction_in_map_err s' = Some 0"
      by auto
  next
    assume srt: "sorted (far_edges (sightline s))" and pos: "0 < hd (far_edges (sightline s))"
    from far_edges_nonempty [OF active_length [OF assms]] have ne: "far_edges (sightline s) \<noteq> []"
      by simp
    have r: "resolve_ind 0 (sightline s) = Inr (- 1)"
      by (rule resolve_ind_below_first [OF srt ne pos])
    from update_coherent_result [OF coh r, of 0 0 0 0 force]
    show "\<exists>c s'. update_extinction_in_map 0 force s = Inr (c, s') \<and>
              extinction_in_map s' = Some 0 \<and> extinction_in_map_err s' = Some 0"
      by auto
  }
qed

theorem zero_extinction_rule_witness:
  "active scenario_rows scenario_loaded
   \<and> resolve_ind 7 (sightline scenario_loaded) = Inr 0
   \<and> sorted (far_edges (sightline scenario_loaded))
   \<and> 0 < hd (far_edges (sightline scenario_loaded))
   \<and> (\<exists>c s'. update_extinction_in_map 7 False scenario_loaded = Inr (c, s') \<and>
          radius_ind s' = Some 0 \<and>
          near_bin_edge s' = Some 0 \<and> near_bin_edge_err s' = Some 0 \<and>
          extinction_in_map s' = Some 0 \<and> extinction_in_map_err s' = Some 0)
   \<and> (\<exists>c s'. update_extinction_in_map 0 False scenario_loaded = Inr (c, s') \<and>
          extinction_in_map s' = Some 0 \<and> extinction_in_map_err s' = Some 0)"
proof -
  have h1: "resolve_ind 7 (sightline scenario_loaded) = Inr 0"
    by (simp add: scenario_sightline eval_defs)
  have h2: "sorted (far_edges (sightline scenario_loaded))"
    by (simp add: scenario_far_edges)
  have h3: "0 < hd (far_edges (sightline scenario_loaded))"
    by (simp add: scenario_far_edges)
  from zero_extinction_rule [OF scenario_active, of 7 0 False] h1 h2 h3 scenario_active
  show ?thesis by simp
qed

text \<open>Without the invariant the radius-0 instance fails: the row with far edges 5, 3, 1
  loads, after the repair, with the decreasing edges 5, 3. \<^verbatim>\<open>np.digitize\<close> then resolves
  radius 0 to index 1, and the cache holds 0.75 and 0.0625 although the first far edge
  is positive.\<close>

theorem zero_extinction_rule_counterexample:
  "active falling_rows falling_loaded
   \<and> far_edges (sightline falling_loaded) = [5, 3]
   \<and> (0 :: real) < hd (far_edges (sightline falling_loaded))
   \<and> resolve_ind 0 (sightline falling_loaded) = Inr 1
   \<and> resolved_extinction 0 falling_loaded = Inr (Some (3/4), Some (1/16))
   \<and> resolved_extinction 0 falling_loaded \<noteq> Inr (Some 0, Some 0)"
proof -
  have a: "(0 :: real) < hd (far_edges (sightline falling_loaded))"
    by (simp add: falling_far_edges)
  have b: "resolve_ind 0 (sightline falling_loaded) = Inr 1"
    by (simp add: falling_sightline eval_defs)
  have c: "resolved_extinction 0 falling_loaded = Inr (Some (3/4), Some (1/16))"
    by (simp add: falling_loaded_def eval_defs)
  have d: "resolved_extinction 0 falling_loaded \<noteq> Inr (Some 0, Some 0)"
    by (simp add: c)
  from falling_active falling_far_edges a b c d show ?thesis by (intro conjI)
qed

text \<open>
  C10. Distances below the first far edge are absorbed, not rejected. In every state
  with an active profile whose far edges are non-decreasing, a call with a radius
  strictly below the first far edge (any negative radius below it included) returns
  without raising: the resolved index is -1, no subscript of the profile is evaluated
  for it (every read is guarded by \<^verbatim>\<open>radius_ind > 0\<close>), and the four cached values are
  zero afterwards. Nothing at this level rejects a negative radius.
\<close>

theorem below_first_edge_absorbed:
  assumes "active rows s"
    and "sorted (far_edges (sightline s))"
    and "radius < hd (far_edges (sightline s))"
  shows "resolve_ind radius (sightline s) = Inr (- 1)
     \<and> bin_subscripts (- 1) = []
     \<and> (\<exists>c s'. update_extinction_in_map radius force s = Inr (c, s') \<and>
           radius_ind s' = Some (- 1) \<and>
           near_bin_edge s' = Some 0 \<and> near_bin_edge_err s' = Some 0 \<and>
           extinction_in_map s' = Some 0 \<and> extinction_in_map_err s' = Some 0)"
proof -
  from far_edges_nonempty [OF active_length [OF assms(1)]]
  have ne: "far_edges (sightline s) \<noteq> []" by simp
  have r: "resolve_ind radius (sightline s) = Inr (- 1)"
    by (rule resolve_ind_below_first [OF assms(2) ne assms(3)])
  from update_coherent_result [OF active_coherent [OF assms(1)] r, of 0 0 0 0 force]
  have "\<exists>c s'. update_extinction_in_map radius force s = Inr (c, s') \<and>
           radius_ind s' = Some (- 1) \<and>
           near_bin_edge s' = Some 0 \<and> near_bin_edge_err s' = Some 0 \<and>
           extinction_in_map s' = Some 0 \<and> extinction_in_map_err s' = Some 0"
    by auto
  with r show ?thesis by (simp add: bin_subscripts_def)
qed

theorem below_first_edge_absorbed_witness:
  "active scenario_rows scenario_loaded
   \<and> sorted (far_edges (sightline scenario_loaded))
   \<and> - 3 < hd (far_edges (sightline scenario_loaded))
   \<and> resolve_ind (- 3) (sightline scenario_loaded) = Inr (- 1)
   \<and> (\<exists>c s'. update_extinction_in_map (- 3) True scenario_loaded = Inr (c, s') \<and>
           radius_ind s' = Some (- 1) \<and>
           near_bin_edge s' = Some 0 \<and> near_bin_edge_err s' = Some 0 \<and>
           extinction_in_map s' = Some 0 \<and> extinction_in_map_err s' = Some 0)"
proof -
  have h2: "sorted (far_edges (sightline scenario_loaded))"
    by (simp add: scenario_far_edges)
  have h3: "- 3 < hd (far_edges (sightline scenario_loaded))"
    by (simp add: scenario_far_edges)
  from below_first_edge_absorbed [OF scenario_active h2 h3, of True] h2 h3 scenario_active
  show ?thesis by simp
qed

text \<open>On the same decreasing profile a radius of -3, below the first far edge 5,
  resolves to index 1: the call reads the subscripts 9, 11, 12 and 10 and the cached
  extinction is 0.75, forced or not.\<close>

theorem below_first_edge_absorbed_counterexample:
  "active falling_rows falling_loaded
   \<and> far_edges (sightline falling_loaded) = [5, 3]
   \<and> (- 3 :: real) < hd (far_edges (sightline falling_loaded))
   \<and> resolve_ind (- 3) (sightline falling_loaded) = Inr 1
   \<and> bin_subscripts 1 = [9, 11, 12, 10]
   \<and> resolved_extinction (- 3) falling_loaded = Inr (Some (3/4), Some (1/16))
   \<and> map_sum id (\<lambda>r. (extinction_in_map (snd r), extinction_in_map_err (snd r)))
        (update_extinction_in_map (- 3) True falling_loaded) = Inr (Some (3/4), Some (1/16))"
proof -
  have a: "(- 3 :: real) < hd (far_edges (sightline falling_loaded))"
    by (simp add: falling_far_edges)
  have b: "resolve_ind (- 3) (sightline falling_loaded) = Inr 1"
    by (simp add: falling_sightline eval_defs)
  have s: "bin_subscripts 1 = [9, 11, 12, 10]"
    by (simp add: bin_subscripts_def)
  have c: "resolved_extinction (- 3) falling_loaded = Inr (Some (3/4), Some (1/16))"
    by (simp add: falling_loaded_def eval_defs)
  have d: "map_sum id (\<lambda>r. (extinction_in_map (snd r), extinction_in_map_err (snd r)))
        (update_extinction_in_map (- 3) True falling_loaded) = Inr (Some (3/4), Some (1/16))"
    by (simp add: falling_loaded_def eval_defs)
  from falling_active falling_far_edges a b s c d show ?thesis by (intro conjI)
qed

lemma read_bin_pos:
  assumes "0 < i" and "off + 4 * i < length sl"
  shows "read_bin sl (int off) (int i) = Inr (sl ! (off + 4 * i))"
proof -
  have "int off + int i * 4 = int (off + 4 * i)" by simp
  moreover have "getitem sl (int (off + 4 * i)) = Inr (sl ! (off + 4 * i))"
    using assms(2) by (rule getitem_nat)
  ultimately have "getitem sl (int off + int i * 4) = Inr (sl ! (off + 4 * i))"
    by (simp only:)
  with assms(1) show ?thesis by (simp only: read_bin_def of_nat_0_less_iff if_True)
qed

subsection \<open>Beyond the last far edge\<close>

text \<open>
  C5. Saturation beyond the table. In every state with an active profile that is a
  flat record of \<open>n\<close> bins with non-decreasing far edges, a radius strictly larger than
  the last far edge resolves to the last bin, index \<open>n - 1\<close>. With at least two bins
  the call returns and the cache then holds the last far edge as \<^verbatim>\<open>near_bin_edge\<close> and,
  as extinction value and error, the second and fourth numbers of the last bin (flat
  positions \<open>6 + 4 (n - 1)\<close> and \<open>8 + 4 (n - 1)\<close>, where the code reads them); every
  later call with a larger radius reports 0 and changes nothing. With a single bin
  the resolved index is 0 and the zero rule applies: value and error are zero. In
  both cases the value and error read after the call are the same for all larger
  radii.
\<close>

theorem saturation_beyond_table:
  assumes "active rows s"
    and "length (sightline s) = 5 + 4 * n"
    and "sorted (far_edges (sightline s))"
    and "last (far_edges (sightline s)) < radius"
  shows "resolve_ind radius (sightline s) = Inr (int n - 1)
     \<and> (2 \<le> n \<longrightarrow>
          (\<exists>c s'. update_extinction_in_map radius force s = Inr (c, s') \<and>
             radius_ind s' = Some (int n - 1) \<and>
             near_bin_edge s' = Some (last (far_edges (sightline s))) \<and>
             extinction_in_map s' = Some (sightline s ! (6 + 4 * (n - 1))) \<and>
             extinction_in_map_err s' = Some (sightline s ! (8 + 4 * (n - 1))) \<and>
             (\<forall>r2. radius \<le> r2 \<longrightarrow> update_extinction_in_map r2 False s' = Inr (0, s'))))
     \<and> (n = 1 \<longrightarrow>
          (\<exists>c s'. update_extinction_in_map radius force s = Inr (c, s') \<and>
             radius_ind s' = Some 0 \<and>
             extinction_in_map s' = Some 0 \<and> extinction_in_map_err s' = Some 0))
     \<and> (\<forall>r2. radius \<le> r2 \<longrightarrow> resolved_extinction r2 s = resolved_extinction radius s)"
proof -
  let ?sl = "sightline s" and ?fe = "far_edges (sightline s)"
  note coh = active_coherent [OF assms(1)]
  have len: "length ?fe = n" by (rule length_far_edges [OF assms(2)])
  from far_edges_nonempty [OF active_length [OF assms(1)]] have ne: "?fe \<noteq> []" by simp
  with len have n1: "1 \<le> n" by (cases n) auto
  have res: "resolve_ind r ?sl = Inr (int n - 1)" if "radius \<le> r" for r
    using resolve_ind_beyond_last [OF assms(3) ne, of r] that assms(4) len by simp
  have r0: "resolve_ind radius ?sl = Inr (int n - 1)" by (rule res) simp
  have idx: "int n - 1 = int (n - 1)" using n1 by simp
  have big: "\<exists>c s'. update_extinction_in_map r f s = Inr (c, s') \<and>
             sightline s' = ?sl \<and>
             radius_ind s' = Some (int n - 1) \<and>
             near_bin_edge s' = Some (last ?fe) \<and>
             extinction_in_map s' = Some (?sl ! (6 + 4 * (n - 1))) \<and>
             extinction_in_map_err s' = Some (?sl ! (8 + 4 * (n - 1)))"
    if "2 \<le> n" and "radius \<le> r" for r f
  proof -
    from that(1) have pos: "0 < n - 1" by simp
    have b: "off + 4 * (n - 1) < length ?sl" if "off \<le> 8" for off
      using that assms(2) n1 by simp
    have l: "last ?fe = ?sl ! (5 + 4 * (n - 1))"
      using ne len n1 nth_far_edges [of "n - 1" ?sl] by (simp add: last_conv_nth)
    have rb: "read_bin ?sl (int off) (int n - 1) = Inr (?sl ! (off + 4 * (n - 1)))"
      if "off \<le> 8" for off
      unfolding idx by (rule read_bin_pos [OF pos b [OF that]])
    have rb5: "read_bin ?sl 5 (int n - 1) = Inr (last ?fe)"
      using rb [of 5] by (simp only: l of_nat_numeral)
    have rb7: "read_bin ?sl 7 (int n - 1) = Inr (?sl ! (7 + 4 * (n - 1)))"
      using rb [of 7] by (simp only: of_nat_numeral)
    have rb8: "read_bin ?sl 8 (int n - 1) = Inr (?sl ! (8 + 4 * (n - 1)))"
      using rb [of 8] by (simp only: of_nat_numeral)
    have rb6: "read_bin ?sl 6 (int n - 1) = Inr (?sl ! (6 + 4 * (n - 1)))"
      using rb [of 6] by (simp only: of_nat_numeral)
    from update_coherent_result [OF coh res [OF that(2)] rb5 rb7 rb8 rb6, of f]
    show ?thesis by blast
  qed
  have small: "\<exists>c s'. update_extinction_in_map r f s = Inr (c, s') \<and>
             radius_ind s' = Some 0 \<and>
             extinction_in_map s' = Some 0 \<and> extinction_in_map_err s' = Some 0"
    if "n = 1" and "radius \<le> r" for r f
    using update_coherent_result [OF coh res [OF that(2)], of 0 0 0 0 f] that(1) by auto
  have c2: "\<exists>c s'. update_extinction_in_map radius force s = Inr (c, s') \<and>
             radius_ind s' = Some (int n - 1) \<and>
             near_bin_edge s' = Some (last ?fe) \<and>
             extinction_in_map s' = Some (?sl ! (6 + 4 * (n - 1))) \<and>
             extinction_in_map_err s' = Some (?sl ! (8 + 4 * (n - 1))) \<and>
             (\<forall>r2. radius \<le> r2 \<longrightarrow> update_extinction_in_map r2 False s' = Inr (0, s'))"
    if n2: "2 \<le> n"
  proof -
    from big [OF n2, of radius force] obtain c s' where
      u: "update_extinction_in_map radius force s = Inr (c, s')" and
      sl: "sightline s' = ?sl" and ri: "radius_ind s' = Some (int n - 1)" and
      rest: "near_bin_edge s' = Some (last ?fe)"
        "extinction_in_map s' = Some (?sl ! (6 + 4 * (n - 1)))"
        "extinction_in_map_err s' = Some (?sl ! (8 + 4 * (n - 1)))"
      by auto
    have "update_extinction_in_map r2 False s' = Inr (0, s')" if "radius \<le> r2" for r2
      using update_unchanged [of r2 s' "int n - 1"] res [OF that] sl ri by simp
    with u ri rest show ?thesis by blast
  qed
  have same: "resolved_extinction r2 s = resolved_extinction radius s" if "radius \<le> r2" for r2
  proof (cases "2 \<le> n")
    case True
    from big [OF True that, of False] obtain c1 s1 where
      u1: "update_extinction_in_map r2 False s = Inr (c1, s1)" and
      v1: "extinction_in_map s1 = Some (?sl ! (6 + 4 * (n - 1)))"
          "extinction_in_map_err s1 = Some (?sl ! (8 + 4 * (n - 1)))"
      by blast
    from big [OF True, of radius False] obtain c2 s2 where
      u2: "update_extinction_in_map radius False s = Inr (c2, s2)" and
      v2: "extinction_in_map s2 = Some (?sl ! (6 + 4 * (n - 1)))"
          "extinction_in_map_err s2 = Some (?sl ! (8 + 4 * (n - 1)))"
      by auto
    show ?thesis by (simp add: resolved_extinction_def u1 u2 v1 v2)
  next
    case False
    with n1 have n: "n = 1" by simp
    from small [OF n that, of False] obtain c1 s1 where
      u1: "update_extinction_in_map r2 False s = Inr (c1, s1)" and
      v1: "extinction_in_map s1 = Some 0" "extinction_in_map_err s1 = Some 0"
      by blast
    from small [OF n, of radius False] obtain c2 s2 where
      u2: "update_extinction_in_map radius False s = Inr (c2, s2)" and
      v2: "extinction_in_map s2 = Some 0" "extinction_in_map_err s2 = Some 0"
      by auto
    show ?thesis by (simp add: resolved_extinction_def u1 u2 v1 v2)
  qed
  have c1: "n = 1 \<longrightarrow>
          (\<exists>c s'. update_extinction_in_map radius force s = Inr (c, s') \<and>
             radius_ind s' = Some 0 \<and>
             extinction_in_map s' = Some 0 \<and> extinction_in_map_err s' = Some 0)"
    using small [of radius force] by simp
  from r0 c2 c1 same show ?thesis by (intro conjI impI allI) blast+
qed

lemma single_sightline:
  "sightline single_loaded = [10, 0, 1, 1, 1, 5, 1/10, 1/5, 1/100]"
  by (simp add: single_loaded_def)

lemma single_far_edges: "far_edges (sightline single_loaded) = [5]"
  by (simp add: single_sightline far_edges_def)

theorem saturation_beyond_table_witness:
  "active scenario_rows scenario_loaded
   \<and> length (sightline scenario_loaded) = 5 + 4 * 2
   \<and> sorted (far_edges (sightline scenario_loaded))
   \<and> last (far_edges (sightline scenario_loaded)) < 12
   \<and> resolve_ind 12 (sightline scenario_loaded) = Inr 1
   \<and> (\<exists>c s'. update_extinction_in_map 12 False scenario_loaded = Inr (c, s') \<and>
          radius_ind s' = Some 1 \<and>
          near_bin_edge s' = Some 10 \<and>
          extinction_in_map s' = Some (1/10) \<and>
          extinction_in_map_err s' = Some (1/50) \<and>
          (\<forall>r2. 12 \<le> r2 \<longrightarrow> update_extinction_in_map r2 False s' = Inr (0, s')))
   \<and> resolved_extinction 1000 scenario_loaded = resolved_extinction 12 scenario_loaded"
proof -
  have h2: "length (sightline scenario_loaded) = 5 + 4 * 2"
    by (simp add: scenario_sightline)
  have h3: "sorted (far_edges (sightline scenario_loaded))"
    by (simp add: scenario_far_edges)
  have h4: "last (far_edges (sightline scenario_loaded)) < 12"
    by (simp add: scenario_far_edges)
  have e1: "int 2 - 1 = 1" by simp
  have e2: "sightline scenario_loaded ! (6 + 4 * (2 - 1)) = 1/10"
    by (simp add: scenario_sightline)
  have e3: "sightline scenario_loaded ! (8 + 4 * (2 - 1)) = 1/50"
    by (simp add: scenario_sightline)
  have e4: "last (far_edges (sightline scenario_loaded)) = 10"
    by (simp add: scenario_far_edges)
  have e5: "(2::nat) \<le> 2" by simp
  note inst = saturation_beyond_table [OF scenario_active h2 h3 h4, of False, unfolded e1 e2 e3 e4]
  have r: "resolve_ind 12 (sightline scenario_loaded) = Inr 1"
    by (rule inst [THEN conjunct1])
  have u: "\<exists>c s'. update_extinction_in_map 12 False scenario_loaded = Inr (c, s') \<and>
          radius_ind s' = Some 1 \<and>
          near_bin_edge s' = Some 10 \<and>
          extinction_in_map s' = Some (1/10) \<and>
          extinction_in_map_err s' = Some (1/50) \<and>
          (\<forall>r2. 12 \<le> r2 \<longrightarrow> update_extinction_in_map r2 False s' = Inr (0, s'))"
    by (rule inst [THEN conjunct2, THEN conjunct1, THEN mp, OF e5])
  have s: "resolved_extinction 1000 scenario_loaded = resolved_extinction 12 scenario_loaded"
    by (rule inst [THEN conjunct2, THEN conjunct2, THEN conjunct2, THEN spec, THEN mp]) simp
  from scenario_active h2 h3 h4 r u s show ?thesis by (intro conjI)
qed

text \<open>
  Three profiles on which the rule in its first wording fails. With the single bin
  (5, 0.1, 0.2, 0.01) a radius of 7 resolves to index 0 and reads back (0, 0). With the
  scenario's two bins a radius of 12 reads back (0.1, 0.02), the second and fourth
  numbers of the last bin (10, 0.1, 0.5, 0.02), not its third number 0.5. With the
  decreasing far edges 5, 3 a radius of 4, beyond the last far edge 3, resolves to
  index 0 and reads back (0, 0), not the numbers of the last bin (3, 0.75, 0.125,
  0.0625).
\<close>

theorem saturation_beyond_table_counterexample:
  "active single_rows single_loaded
   \<and> drop 5 (sightline single_loaded) = [5, 1/10, 1/5, 1/100]
   \<and> (5 :: real) < 7
   \<and> resolve_ind 7 (sightline single_loaded) = Inr 0
   \<and> resolved_extinction 7 single_loaded = Inr (Some 0, Some 0)
   \<and> active scenario_rows scenario_loaded
   \<and> drop 9 (sightline scenario_loaded) = [10, 1/10, 1/2, 1/50]
   \<and> (10 :: real) < 12
   \<and> resolve_ind 12 (sightline scenario_loaded) = Inr 1
   \<and> resolved_extinction 12 scenario_loaded = Inr (Some (1/10), Some (1/50))
   \<and> active falling_rows falling_loaded
   \<and> drop 5 (sightline falling_loaded) = [5, 1/10, 1/5, 1/100, 3, 3/4, 1/8, 1/16]
   \<and> (3 :: real) < 4
   \<and> resolve_ind 4 (sightline falling_loaded) = Inr 0
   \<and> resolved_extinction 4 falling_loaded = Inr (Some 0, Some 0)"
proof -
  have a1: "drop 5 (sightline single_loaded) = [5, 1/10, 1/5, 1/100]"
    by (simp add: single_sightline)
  have a2: "resolve_ind 7 (sightline single_loaded) = Inr 0"
    by (simp add: single_sightline eval_defs)
  have a3: "resolved_extinction 7 single_loaded = Inr (Some 0, Some 0)"
    by (simp add: single_loaded_def eval_defs)
  have b1: "drop 9 (sightline scenario_loaded) = [10, 1/10, 1/2, 1/50]"
    by (simp add: scenario_sightline)
  have b2: "resolve_ind 12 (sightline scenario_loaded) = Inr 1"
    by (simp add: scenario_sightline eval_defs)
  have b3: "resolved_extinction 12 scenario_loaded = Inr (Some (1/10), Some (1/50))"
    by (simp add: scenario_loaded_def eval_defs)
  have c1: "drop 5 (sightline falling_loaded) = [5, 1/10, 1/5, 1/100, 3, 3/4, 1/8, 1/16]"
    by (simp add: falling_sightline)
  have c2: "resolve_ind 4 (sightline falling_loaded) = Inr 0"
    by (simp add: falling_sightline eval_defs)
  have c3: "resolved_extinction 4 falling_loaded = Inr (Some 0, Some 0)"
    by (simp add: falling_loaded_def eval_defs)
  have n: "(5 :: real) < 7" "(10 :: real) < 12" "(3 :: real) < 4" by simp_all
  from single_active a1 n(1) a2 a3 scenario_active b1 n(2) b2 b3 falling_active c1 n(3) c2 c3
  show ?thesis by (intro conjI)
qed

subsection \<open>A radius exactly on a far edge\<close>

text \<open>
  C3. Boundary tie-break. For every state whose profile has strictly
  increasing far edges and every \<open>k\<close>, a radius exactly equal to the \<open>k\<close>-th far edge
  (counted from 0) resolves to bin index \<open>k\<close>, the bin that begins at that edge: the
  digitization is closed on the lower side of the upper bin. This is the index of
  every radius in the interval from that edge up to, and excluding, the next far edge
  (or of every larger radius when the edge is the last one), and it is one more than
  the index of any radius strictly inside the interval that ends at that edge. A call
  with that radius that returns leaves \<^verbatim>\<open>radius_ind\<close> equal to \<open>k\<close>.
\<close>

theorem boundary_edge_upper_bin:
  assumes "sorted_wrt (<) (far_edges (sightline s))"
    and "k < length (far_edges (sightline s))"
  shows "resolve_ind (far_edges (sightline s) ! k) (sightline s) = Inr (int k)
     \<and> (\<forall>r. far_edges (sightline s) ! k \<le> r \<and>
             (Suc k < length (far_edges (sightline s)) \<longrightarrow> r < far_edges (sightline s) ! Suc k)
           \<longrightarrow> resolve_ind r (sightline s) = Inr (int k))
     \<and> (\<forall>r. (0 < k \<longrightarrow> far_edges (sightline s) ! (k - 1) \<le> r) \<and>
             r < far_edges (sightline s) ! k
           \<longrightarrow> resolve_ind r (sightline s) = Inr (int k - 1))
     \<and> (\<forall>force c s'.
           update_extinction_in_map (far_edges (sightline s) ! k) force s = Inr (c, s')
           \<longrightarrow> radius_ind s' = Some (int k))"
proof -
  let ?fe = "far_edges (sightline s)"
  have srt: "sorted ?fe" using assms(1) by (rule strict_sorted_imp_sorted)
  have upper: "resolve_ind r (sightline s) = Inr (int k)"
    if "?fe ! k \<le> r" and "Suc k < length ?fe \<Longrightarrow> r < ?fe ! Suc k" for r
    using resolve_ind_sorted [OF srt, of "Suc k" r] that assms(2) by simp
  have lower: "resolve_ind r (sightline s) = Inr (int k - 1)"
    if "0 < k \<Longrightarrow> ?fe ! (k - 1) \<le> r" and "r < ?fe ! k" for r
    using resolve_ind_sorted [OF srt, of k r] that assms(2) by simp
  have next_edge: "?fe ! k < ?fe ! Suc k" if "Suc k < length ?fe"
    using assms(1) that by (simp add: sorted_wrt_nth_less)
  have at_edge: "resolve_ind (?fe ! k) (sightline s) = Inr (int k)"
    by (rule upper) (simp_all add: next_edge)
  have call: "radius_ind s' = Some (int k)"
    if "update_extinction_in_map (?fe ! k) force s = Inr (c, s')" for force c s'
    using update_radius_ind [OF that] at_edge by auto
  from at_edge upper lower call show ?thesis by blast
qed

theorem boundary_edge_upper_bin_witness:
  "sorted_wrt (<) (far_edges (sightline scenario_loaded))
   \<and> (1 :: nat) < length (far_edges (sightline scenario_loaded))
   \<and> far_edges (sightline scenario_loaded) ! 1 = 10
   \<and> resolve_ind 10 (sightline scenario_loaded) = Inr 1
   \<and> resolve_ind 11 (sightline scenario_loaded) = Inr 1
   \<and> resolve_ind 7 (sightline scenario_loaded) = Inr 0"
proof -
  have h1: "sorted_wrt (<) (far_edges (sightline scenario_loaded))"
    by (simp add: scenario_far_edges)
  have h2: "(1 :: nat) < length (far_edges (sightline scenario_loaded))"
    by (simp add: scenario_far_edges)
  have e: "far_edges (sightline scenario_loaded) ! 1 = 10"
    "far_edges (sightline scenario_loaded) ! (1 - 1) = 5"
    "length (far_edges (sightline scenario_loaded)) = 2"
    by (simp_all add: scenario_far_edges)
  note inst = boundary_edge_upper_bin [OF h1 h2]
  have a: "resolve_ind 10 (sightline scenario_loaded) = Inr 1"
    using inst [THEN conjunct1] e by simp
  have b: "resolve_ind 11 (sightline scenario_loaded) = Inr 1"
    using inst [THEN conjunct2, THEN conjunct1, THEN spec, of 11] e by simp
  have c: "resolve_ind 7 (sightline scenario_loaded) = Inr 0"
    using inst [THEN conjunct2, THEN conjunct2, THEN conjunct1, THEN spec, of 7] e by simp
  from h1 h2 e(1) a b c show ?thesis by (intro conjI)
qed

text \<open>A radius on an edge does not share the index of the interval that ends there:
  with far edges 5 and 10, radius 10 resolves to index 1 and radius 7 to index 0.\<close>

theorem boundary_tie_break_counterexample:
  "active scenario_rows scenario_loaded
   \<and> sorted_wrt (<) (far_edges (sightline scenario_loaded))
   \<and> far_edges (sightline scenario_loaded) ! 0 = 5
   \<and> far_edges (sightline scenario_loaded) ! 1 = 10
   \<and> (5 :: real) < 7 \<and> (7 :: real) < 10
   \<and> resolve_ind 10 (sightline scenario_loaded) = Inr 1
   \<and> resolve_ind 7 (sightline scenario_loaded) = Inr 0
   \<and> resolve_ind 10 (sightline scenario_loaded) \<noteq> resolve_ind 7 (sightline scenario_loaded)"
proof -
  have a: "resolve_ind 10 (sightline scenario_loaded) = Inr 1"
    by (simp add: scenario_sightline eval_defs)
  have b: "resolve_ind 7 (sightline scenario_loaded) = Inr 0"
    by (simp add: scenario_sightline eval_defs)
  have c: "resolve_ind 10 (sightline scenario_loaded) \<noteq> resolve_ind 7 (sightline scenario_loaded)"
    by (simp add: a b)
  have d: "sorted_wrt (<) (far_edges (sightline scenario_loaded))"
    "far_edges (sightline scenario_loaded) ! 0 = 5"
    "far_edges (sightline scenario_loaded) ! 1 = 10"
    "(5 :: real) < 7" "(7 :: real) < 10"
    by (simp_all add: scenario_far_edges)
  from scenario_active a b c d show ?thesis by (intro conjI)
qed

section \<open>The end-to-end scenario\<close>

text \<open>
  C1. End-to-end scenario. The reference grid holds the sight lines (10, 0)
  and (20, 0), so \<^verbatim>\<open>l_stepsize\<close> is 10; line 1 of the table has the bins
  (5, 0.1, 0.2, 0.01) and (10, 0.1, 0.5, 0.02), with any quality scalars, and line 2 is
  arbitrary. Setting the sight line to (11, 0.5) selects grid row 0, that is line 1,
  the nearest, and stores its record unrepaired with far edges 5 and 10. Resolving
  the extinction at distance 7 then resolves to bin index 0 (5 <= 7 < 10), the call
  reports a change of the cursor from -1 to 0, and, index 0 being under the zero
  rule, the cached extinction value and error are (0, 0).
\<close>

theorem scenario_end_to_end:
  "Surot_init [(10, 0), (20, 0)] = Inr scenario_start
   \<and> l_stepsize scenario_start = 10
   \<and> min_dist_arg (scenario_start\<lparr> l_deg := Some 11, b_deg := Some (1/2) \<rparr>) = Inr 0
   \<and> (\<exists>s1. update_line_of_sight
               [[10, 0, c1, c2, 2, 5, 1/10, 1/5, 1/100, 10, 1/10, 1/2, 1/50], row2]
               11 (1/2) scenario_start = Inr s1
          \<and> sightline s1 = [10, 0, c1, c2, 2, 5, 1/10, 1/5, 1/100, 10, 1/10, 1/2, 1/50]
          \<and> far_edges (sightline s1) = [5, 10]
          \<and> resolve_ind 7 (sightline s1) = Inr 0
          \<and> update_extinction_in_map 7 False s1
              = Inr (1, s1\<lparr> radius_ind := Some 0 \<rparr>)
          \<and> extinction_in_map s1 = Some 0 \<and> extinction_in_map_err s1 = Some 0)
   \<and> set_then_resolve
        [[10, 0, c1, c2, 2, 5, 1/10, 1/5, 1/100, 10, 1/10, 1/2, 1/50], row2]
        11 (1/2) 7 scenario_start = Inr (Some 0, Some 0)"
  by (simp add: eval_defs scenario_start_def scenario_coords_def fresh_def)

text \<open>On the scenario table with quality scalars 1, the pair read back is (0, 0) and
  not (0.2, 0.01).\<close>

theorem scenario_end_to_end_counterexample:
  "set_then_resolve scenario_rows 11 (1/2) 7 scenario_start = Inr (Some 0, Some 0)
   \<and> set_then_resolve scenario_rows 11 (1/2) 7 scenario_start \<noteq> Inr (Some (1/5), Some (1/100))"
  by (simp add: eval_defs scenario_start_def scenario_coords_def scenario_rows_def fresh_def)

section \<open>Loading and repairing a profile\<close>

lemma np_diff_negative_iff:
  "list_ex (\<lambda>d. d < 0) (np_diff xs) \<longleftrightarrow> (\<exists>k. Suc k < length xs \<and> xs ! Suc k - xs ! k < 0)"
proof (induction xs rule: np_diff.induct)
  case (1 x y ys)
  show ?case
  proof
    assume "list_ex (\<lambda>d. d < 0) (np_diff (x # y # ys))"
    then consider "y - x < 0" | "list_ex (\<lambda>d. d < 0) (np_diff (y # ys))" by auto
    then show "\<exists>k. Suc k < length (x # y # ys) \<and> (x # y # ys) ! Suc k - (x # y # ys) ! k < 0"
    proof cases
      case 1
      then have "Suc 0 < length (x # y # ys) \<and> (x # y # ys) ! Suc 0 - (x # y # ys) ! 0 < 0"
        by simp
      then show ?thesis by blast
    next
      case 2
      with 1 obtain k where "Suc k < length (y # ys)" "(y # ys) ! Suc k - (y # ys) ! k < 0"
        by blast
      then have "Suc (Suc k) < length (x # y # ys) \<and>
          (x # y # ys) ! Suc (Suc k) - (x # y # ys) ! Suc k < 0"
        by simp
      then show ?thesis by blast
    qed
  next
    assume "\<exists>k. Suc k < length (x # y # ys) \<and> (x # y # ys) ! Suc k - (x # y # ys) ! k < 0"
    then obtain k where k: "Suc k < length (x # y # ys)"
      "(x # y # ys) ! Suc k - (x # y # ys) ! k < 0" by blast
    show "list_ex (\<lambda>d. d < 0) (np_diff (x # y # ys))"
    proof (cases k)
      case 0
      with k show ?thesis by simp
    next
      case (Suc j)
      with k have "Suc j < length (y # ys) \<and> (y # ys) ! Suc j - (y # ys) ! j < 0" by simp
      with 1 have "list_ex (\<lambda>d. d < 0) (np_diff (y # ys))" by blast
      then show ?thesis by simp
    qed
  qed
qed simp_all

lemma np_diff_sorted: "sorted xs \<longleftrightarrow> \<not> list_ex (\<lambda>d. d < 0) (np_diff xs)"
proof -
  have "sorted xs \<longleftrightarrow> (\<forall>k. Suc k < length xs \<longrightarrow> xs ! k \<le> xs ! Suc k)"
    by (rule sorted_iff_nth_Suc)
  also have "\<dots> \<longleftrightarrow> \<not> (\<exists>k. Suc k < length xs \<and> xs ! Suc k - xs ! k < 0)"
    by (metis diff_less_0_iff_less not_less)
  finally show ?thesis by (simp add: np_diff_negative_iff)
qed

lemma far_edges_take:
  assumes "length sl = 5 + 4 * n" and "1 \<le> n"
  shows "far_edges (take (length sl - 4) sl) = butlast (far_edges sl)"
proof (rule nth_equalityI)
  have l1: "length (take (length sl - 4) sl) = 5 + 4 * (n - 1)" using assms by simp
  have len1: "length (far_edges (take (length sl - 4) sl)) = n - 1"
    by (rule length_far_edges [OF l1])
  have len2: "length (far_edges sl) = n" by (rule length_far_edges [OF assms(1)])
  show "length (far_edges (take (length sl - 4) sl)) = length (butlast (far_edges sl))"
    using len1 len2 by simp
  fix i assume i: "i < length (far_edges (take (length sl - 4) sl))"
  then have "far_edges (take (length sl - 4) sl) ! i = take (length sl - 4) sl ! (5 + 4 * i)"
    by (rule nth_far_edges)
  also have "\<dots> = sl ! (5 + 4 * i)" using i len1 assms by simp
  also have "\<dots> = far_edges sl ! i" using i len1 len2 nth_far_edges [of i sl] by simp
  also have "\<dots> = butlast (far_edges sl) ! i" using i len1 len2 by (simp add: nth_butlast)
  finally show "far_edges (take (length sl - 4) sl) ! i = butlast (far_edges sl) ! i" .
qed

lemma find_sightline_Inr:
  "min_dist_arg s = Inr i \<Longrightarrow>
     find_sightline rows s = Inr (s\<lparr> sightline := repair_sightline (getline rows (i + 1)) \<rparr>)"
  by (simp add: find_sightline_def)

lemma repair_sightline_dropped:
  assumes "Suc k < length (far_edges row)" and "far_edges row ! Suc k - far_edges row ! k < 0"
  shows "repair_sightline row = take (length row - 4) row" and "10 \<le> length row"
proof -
  from assms have "list_ex (\<lambda>d. d < 0) (np_diff (far_edges row))"
    unfolding np_diff_negative_iff by blast
  then show "repair_sightline row = take (length row - 4) row"
    by (simp add: repair_sightline_def)
  from far_edges_bound [OF assms(1)] show "10 \<le> length row" by simp
qed

lemma repair_sightline_kept: "sorted (far_edges row) \<Longrightarrow> repair_sightline row = row"
  by (simp add: repair_sightline_def np_diff_sorted)

text \<open>
  C6. Monotonicity repair. When \<^verbatim>\<open>find_sightline\<close> has resolved row index \<open>i\<close> and loaded
  the row of that line, then: if some successive difference of the far-edge sequence
  (stride 4 from element 5 of the flat record) is negative, the stored profile is the
  row without its last four numbers, the final bin; if the far edges are
  non-decreasing, the stored profile is the row unmodified. In particular a
  three-bin row with far edges 1, 2, 1.5 is stored with its first two bins only
  (13 numbers, far edges 1 and 2).
\<close>

theorem monotonicity_repair:
  assumes "min_dist_arg s = Inr i" and "row = getline rows (i + 1)"
  shows "\<exists>sl. find_sightline rows s = Inr (s\<lparr> sightline := sl \<rparr>)
     \<and> ((\<exists>k. Suc k < length (far_edges row) \<and> far_edges row ! Suc k - far_edges row ! k < 0)
          \<longrightarrow> sl = take (length row - 4) row \<and> 4 \<le> length row
              \<and> row = sl @ drop (length row - 4) row)
     \<and> (sorted (far_edges row) \<longrightarrow> sl = row)
     \<and> (length row = 17 \<and> far_edges row = [1, 2, 3/2]
          \<longrightarrow> sl = take 13 row \<and> far_edges sl = [1, 2])"
proof -
  let ?sl = "repair_sightline row"
  have f: "find_sightline rows s = Inr (s\<lparr> sightline := ?sl \<rparr>)"
    using find_sightline_Inr [OF assms(1)] assms(2) by simp
  have a: "?sl = take (length row - 4) row \<and> 4 \<le> length row
              \<and> row = ?sl @ drop (length row - 4) row"
    if "\<exists>k. Suc k < length (far_edges row) \<and> far_edges row ! Suc k - far_edges row ! k < 0"
  proof -
    from that obtain k where k: "Suc k < length (far_edges row)"
      "far_edges row ! Suc k - far_edges row ! k < 0" by blast
    from repair_sightline_dropped [OF k] show ?thesis by simp
  qed
  have b: "?sl = row" if "sorted (far_edges row)"
    using that by (rule repair_sightline_kept)
  have c: "?sl = take 13 row \<and> far_edges ?sl = [1, 2]"
    if "length row = 17 \<and> far_edges row = [1, 2, 3/2]"
  proof -
    from that have fe: "far_edges row = [1, 2, 3/2]" and len: "length row = 5 + 4 * 3"
      by simp_all
    have "Suc 1 < length (far_edges row) \<and> far_edges row ! Suc 1 - far_edges row ! 1 < 0"
      by (simp add: fe)
    then have "\<exists>k. Suc k < length (far_edges row) \<and> far_edges row ! Suc k - far_edges row ! k < 0"
      by blast
    from a [OF this] len have sl: "?sl = take 13 row" by simp
    from far_edges_take [OF len] fe len have "far_edges (take 13 row) = [1, 2]" by simp
    with sl show ?thesis by simp
  qed
  note A = a [THEN impI [of "\<exists>k. Suc k < length (far_edges row) \<and>
      far_edges row ! Suc k - far_edges row ! k < 0"]]
  note B = b [THEN impI [of "sorted (far_edges row)"]]
  note C = c [THEN impI [of "length row = 17 \<and> far_edges row = [1, 2, 3/2]"]]
  show ?thesis
    by (rule exI [of _ ?sl]) (rule conjI [OF f conjI [OF A conjI [OF B C]]])
qed


theorem monotonicity_repair_witness:
  "min_dist_arg (scenario_start\<lparr> l_deg := Some 19, b_deg := Some 0 \<rparr>) = Inr 1
   \<and> length (getline scenario_rows 2) = 17
   \<and> far_edges (getline scenario_rows 2) = [1, 2, 3/2]
   \<and> find_sightline scenario_rows (scenario_start\<lparr> l_deg := Some 19, b_deg := Some 0 \<rparr>)
       = Inr (scenario_start\<lparr> l_deg := Some 19, b_deg := Some 0,
                sightline := [20, 0, 1, 1, 3, 1, 1/10, 1/5, 1/100, 2, 1/10, 1/2, 1/50] \<rparr>)"
proof -
  let ?s = "scenario_start\<lparr> l_deg := Some 19, b_deg := Some 0 \<rparr>"
  let ?row = "getline scenario_rows (1 + 1)"
  have h1: "min_dist_arg ?s = Inr 1"
    by (simp add: eval_defs scenario_start_def scenario_coords_def fresh_def)
  have h2: "length ?row = 17 \<and> far_edges ?row = [1, 2, 3/2]"
    by (simp add: getline_def scenario_rows_def far_edges_def)
  have e: "take 13 ?row = [20, 0, 1, 1, 3, 1, 1/10, 1/5, 1/100, 2, 1/10, 1/2, 1/50]"
    by (simp add: getline_def scenario_rows_def)
  from monotonicity_repair [OF h1 refl, of scenario_rows] obtain sl where
    f: "find_sightline scenario_rows ?s = Inr (?s\<lparr> sightline := sl \<rparr>)" and
    c: "length ?row = 17 \<and> far_edges ?row = [1, 2, 3/2]
          \<longrightarrow> sl = take 13 ?row \<and> far_edges sl = [1, 2]"
    by (elim exE conjE)
  from c h2 have "sl = take 13 ?row" by (simp only:)
  with f e have r1: "find_sightline scenario_rows ?s
       = Inr (?s\<lparr> sightline := [20, 0, 1, 1, 3, 1, 1/10, 1/5, 1/100, 2, 1/10, 1/2, 1/50] \<rparr>)"
    by (simp only:)
  have t: "(1 + 1 :: nat) = 2" by simp
  from h1 h2 [unfolded t] r1 show ?thesis by (simp only: simp_thms)
qed

lemma init_sightline_number_of_bins:
  "init_sightline s = Inr s' \<Longrightarrow> number_of_bins s' = Some (sightline s ! 4)"
  using getitem_Inr_nat [of "sightline s" 4]
  by (auto simp: init_sightline_def bind_err_Inr_iff dest!: update_Inr_D)

lemma update_number_of_bins:
  "update_extinction_in_map radius force s = Inr (c, s') \<Longrightarrow> number_of_bins s' = number_of_bins s"
  by (drule update_Inr_D) auto

lemma repair_sightline_cases:
  "repair_sightline row = row \<or>
   (list_ex (\<lambda>d. d < 0) (np_diff (far_edges row)) \<and> repair_sightline row = take (length row - 4) row)"
  by (simp add: repair_sightline_def)

lemma repair_sightline_nth:
  assumes "k < length (repair_sightline row)"
  shows "repair_sightline row ! k = row ! k \<and> k < length row"
  using repair_sightline_cases [of row] assms by auto

text \<open>
  C9. Stale bin count after repair. After \<^verbatim>\<open>update_line_of_sight\<close> returns,
  \<^verbatim>\<open>number_of_bins\<close> is element 4 of the raw row of the resolved line, whether or not
  the repair dropped the final bin, and no later \<^verbatim>\<open>update_extinction_in_map\<close> call
  changes it. So when the raw row is a flat record of \<open>n\<close> bins whose count field is
  \<open>n\<close> and the repair triggers, the stored profile has length \<open>5 + 4 (n - 1)\<close> and
  \<open>n - 1\<close> far edges while \<^verbatim>\<open>number_of_bins\<close> still reports \<open>n\<close>.
\<close>

theorem stale_number_of_bins:
  assumes "update_line_of_sight rows l b s = Inr s'"
  shows "\<exists>i. min_dist_arg (s\<lparr> l_deg := Some l, b_deg := Some b \<rparr>) = Inr i
     \<and> 4 < length (getline rows (i + 1))
     \<and> number_of_bins s' = Some (getline rows (i + 1) ! 4)
     \<and> sightline s' = repair_sightline (getline rows (i + 1))
     \<and> (\<forall>radius force c s''.
           update_extinction_in_map radius force s' = Inr (c, s'')
           \<longrightarrow> number_of_bins s'' = number_of_bins s')
     \<and> (\<forall>n. list_ex (\<lambda>d. d < 0) (np_diff (far_edges (getline rows (i + 1))))
             \<and> length (getline rows (i + 1)) = 5 + 4 * n
             \<and> getline rows (i + 1) ! 4 = real n
           \<longrightarrow> 2 \<le> n
               \<and> number_of_bins s' = Some (real n)
               \<and> length (sightline s') = 5 + 4 * (n - 1)
               \<and> length (far_edges (sightline s')) = n - 1)"
proof -
  let ?s0 = "s\<lparr> l_deg := Some l, b_deg := Some b \<rparr>"
  from assms obtain s1 where f: "find_sightline rows ?s0 = Inr s1"
    and ini: "init_sightline s1 = Inr s'"
    by (auto simp: update_line_of_sight_def bind_err_Inr_iff)
  from f obtain i where i: "min_dist_arg ?s0 = Inr i"
    and s1: "s1 = ?s0\<lparr> sightline := repair_sightline (getline rows (i + 1)) \<rparr>"
    by (auto simp: find_sightline_def bind_err_Inr_iff)
  let ?row = "getline rows (i + 1)"
  have sl1: "sightline s1 = repair_sightline ?row" by (simp add: s1)
  from init_sightline_sightline [OF ini] sl1
  have sl': "sightline s' = repair_sightline ?row" and len: "6 \<le> length (repair_sightline ?row)"
    by simp_all
  from len have "4 < length (repair_sightline ?row)" by simp
  from repair_sightline_nth [OF this]
  have r4: "repair_sightline ?row ! 4 = ?row ! 4" and l4: "4 < length ?row" by simp_all
  have nb: "number_of_bins s' = Some (?row ! 4)"
    using init_sightline_number_of_bins [OF ini] sl1 r4 by simp
  have frame: "\<forall>radius force c s''.
           update_extinction_in_map radius force s' = Inr (c, s'')
           \<longrightarrow> number_of_bins s'' = number_of_bins s'"
    by (intro allI impI) (rule update_number_of_bins)
  have stale: "2 \<le> n \<and> number_of_bins s' = Some (real n)
               \<and> length (sightline s') = 5 + 4 * (n - 1)
               \<and> length (far_edges (sightline s')) = n - 1"
    if d: "list_ex (\<lambda>d. d < 0) (np_diff (far_edges ?row))"
      and ln: "length ?row = 5 + 4 * n" and r: "?row ! 4 = real n" for n
  proof -
    from d obtain k where "Suc k < length (far_edges ?row)"
      unfolding np_diff_negative_iff by blast
    with length_far_edges [OF ln] have n2: "2 \<le> n" by simp
    from d have "repair_sightline ?row = take (length ?row - 4) ?row"
      by (simp add: repair_sightline_def)
    with sl' ln n2 have l: "length (sightline s') = 5 + 4 * (n - 1)" by simp
    from length_far_edges [OF l] n2 nb r l show ?thesis by simp
  qed
  have stale': "\<forall>n. list_ex (\<lambda>d. d < 0) (np_diff (far_edges ?row))
             \<and> length ?row = 5 + 4 * n \<and> ?row ! 4 = real n
           \<longrightarrow> 2 \<le> n
               \<and> number_of_bins s' = Some (real n)
               \<and> length (sightline s') = 5 + 4 * (n - 1)
               \<and> length (far_edges (sightline s')) = n - 1"
    using stale by (intro allI impI) (elim conjE)
  show ?thesis
    by (rule exI [of _ i])
       (rule conjI [OF i conjI [OF l4 conjI [OF nb conjI [OF sl' conjI [OF frame stale']]]]])
qed

lemma repaired_loaded_eq:
  "update_line_of_sight scenario_rows 19 0 scenario_start = Inr repaired_loaded"
  by (simp add: eval_defs scenario_rows_def scenario_start_def repaired_loaded_def
      scenario_coords_def fresh_def)

theorem stale_number_of_bins_witness:
  "update_line_of_sight scenario_rows 19 0 scenario_start = Inr repaired_loaded
   \<and> getline scenario_rows 2 ! 4 = 3
   \<and> length (getline scenario_rows 2) = 5 + 4 * 3
   \<and> number_of_bins repaired_loaded = Some 3
   \<and> length (sightline repaired_loaded) = 5 + 4 * (3 - 1)
   \<and> length (far_edges (sightline repaired_loaded)) = 3 - 1"
proof -
  let ?s0 = "scenario_start\<lparr> l_deg := Some 19, b_deg := Some 0 \<rparr>"
  have m: "min_dist_arg ?s0 = Inr 1"
    by (simp add: eval_defs scenario_start_def scenario_coords_def fresh_def)
  have row: "getline scenario_rows (1 + 1)
      = [20, 0, 1, 1, 3, 1, 1/10, 1/5, 1/100, 2, 1/10, 1/2, 1/50, 3/2, 1/10, 9/10, 3/100]"
    by (simp add: getline_def scenario_rows_def)
  have h: "list_ex (\<lambda>d. d < 0) (np_diff (far_edges (getline scenario_rows (1 + 1))))
      \<and> length (getline scenario_rows (1 + 1)) = 5 + 4 * 3
      \<and> getline scenario_rows (1 + 1) ! 4 = real 3"
    unfolding row by (simp add: far_edges_def)
  from stale_number_of_bins [OF repaired_loaded_eq] obtain i where
    i: "min_dist_arg ?s0 = Inr i" and
    st: "\<forall>n. list_ex (\<lambda>d. d < 0) (np_diff (far_edges (getline scenario_rows (i + 1))))
             \<and> length (getline scenario_rows (i + 1)) = 5 + 4 * n
             \<and> getline scenario_rows (i + 1) ! 4 = real n
           \<longrightarrow> 2 \<le> n
               \<and> number_of_bins repaired_loaded = Some (real n)
               \<and> length (sightline repaired_loaded) = 5 + 4 * (n - 1)
               \<and> length (far_edges (sightline repaired_loaded)) = n - 1"
    by (elim exE conjE)
  from i m have "i = 1" by simp
  with st [rule_format, of 3] h
  have c: "number_of_bins repaired_loaded = Some (real 3)
      \<and> length (sightline repaired_loaded) = 5 + 4 * (3 - 1)
      \<and> length (far_edges (sightline repaired_loaded)) = 3 - 1"
    by (simp only:)
  have t: "(1 + 1 :: nat) = 2" "real 3 = 3" by simp_all
  from repaired_loaded_eq h [unfolded t] c [unfolded t] show ?thesis by (simp only: simp_thms)
qed

section \<open>Nearest sight line\<close>

lemma argmin_from_spec:
  assumes "best < length pre" and "bv = (pre @ xs) ! best"
    and "\<forall>j<length pre. bv \<le> (pre @ xs) ! j"
    and "\<forall>j<best. bv < (pre @ xs) ! j"
  shows "argmin_from best bv (length pre) xs < length (pre @ xs)
     \<and> (\<forall>j<length (pre @ xs).
           (pre @ xs) ! argmin_from best bv (length pre) xs \<le> (pre @ xs) ! j)
     \<and> (\<forall>j<argmin_from best bv (length pre) xs.
           (pre @ xs) ! argmin_from best bv (length pre) xs < (pre @ xs) ! j)"
  using assms
proof (induction xs arbitrary: pre best bv)
  case Nil
  then show ?case by simp
next
  case (Cons x xs)
  have app: "pre @ x # xs = (pre @ [x]) @ xs" by simp
  have len: "Suc (length pre) = length (pre @ [x])" by simp
  show ?case
  proof (cases "x < bv")
    case True
    have 1: "length pre < length (pre @ [x])" by simp
    have 2: "x = ((pre @ [x]) @ xs) ! length pre" by (simp add: nth_append)
    have 3: "\<forall>j<length (pre @ [x]). x \<le> ((pre @ [x]) @ xs) ! j"
    proof (intro allI impI)
      fix j assume "j < length (pre @ [x])"
      then consider "j < length pre" | "j = length pre" by fastforce
      then show "x \<le> ((pre @ [x]) @ xs) ! j"
      proof cases
        case 1
        with Cons.prems(3) have "bv \<le> (pre @ x # xs) ! j" by blast
        with True show ?thesis unfolding app by simp
      next
        case 2
        then show ?thesis by (simp add: nth_append)
      qed
    qed
    have 4: "\<forall>j<length pre. x < ((pre @ [x]) @ xs) ! j"
    proof (intro allI impI)
      fix j assume "j < length pre"
      with Cons.prems(3) have "bv \<le> (pre @ x # xs) ! j" by blast
      with True show "x < ((pre @ [x]) @ xs) ! j" unfolding app by simp
    qed
    from Cons.IH [OF 1 2 3 4] True show ?thesis
      unfolding app [symmetric] len [symmetric] by simp
  next
    case False
    have 1: "best < length (pre @ [x])" using Cons.prems(1) by simp
    have 2: "bv = ((pre @ [x]) @ xs) ! best" using Cons.prems(2) by simp
    have 3: "\<forall>j<length (pre @ [x]). bv \<le> ((pre @ [x]) @ xs) ! j"
    proof (intro allI impI)
      fix j assume "j < length (pre @ [x])"
      then consider "j < length pre" | "j = length pre" by fastforce
      then show "bv \<le> ((pre @ [x]) @ xs) ! j"
      proof cases
        case 1
        with Cons.prems(3) show ?thesis unfolding app by blast
      next
        case 2
        with False show ?thesis by (simp add: nth_append)
      qed
    qed
    have 4: "\<forall>j<best. bv < ((pre @ [x]) @ xs) ! j" using Cons.prems(4) by simp
    from Cons.IH [OF 1 2 3 4] False show ?thesis
      unfolding app [symmetric] len [symmetric] by simp
  qed
qed

lemma argmin_spec:
  assumes "ds \<noteq> []"
  shows "\<exists>i. argmin ds = Inr i \<and> i < length ds
     \<and> (\<forall>j<length ds. ds ! i \<le> ds ! j) \<and> (\<forall>j<i. ds ! i < ds ! j)"
proof -
  from assms obtain d ds' where ds: "ds = d # ds'" by (cases ds) auto
  have "argmin ds = Inr (argmin_from 0 d (length [d]) ds')" by (simp add: argmin_def ds)
  moreover from argmin_from_spec [of 0 "[d]" d ds'] have
    "argmin_from 0 d (length [d]) ds' < length ds
     \<and> (\<forall>j<length ds. ds ! argmin_from 0 d (length [d]) ds' \<le> ds ! j)
     \<and> (\<forall>j<argmin_from 0 d (length [d]) ds'. ds ! argmin_from 0 d (length [d]) ds' < ds ! j)"
    by (simp add: ds)
  ultimately show ?thesis by blast
qed

text \<open>
  C8. Uninitialized bootstrap. When \<^verbatim>\<open>find_sightline\<close> runs while \<^verbatim>\<open>l_deg\<close> is \<^verbatim>\<open>None\<close>
  (and the grid is not empty), the nearest-neighbour search is made against the origin
  (0, 0): the resolved row index is the first grid row of minimal Euclidean distance
  to (0, 0) in (l, b) degree space, whatever \<^verbatim>\<open>b_deg\<close> holds, and the record of that
  line is what gets loaded.
\<close>

theorem uninitialized_bootstrap:
  assumes "l_deg s = None" and "all_coords s \<noteq> []"
  shows "\<exists>i. min_dist_arg s = Inr i
     \<and> argmin (cdist (0, 0) (all_coords s)) = Inr i
     \<and> i < length (all_coords s)
     \<and> (\<forall>j<length (all_coords s).
           sqrt ((0 - fst (all_coords s ! i))\<^sup>2 + (0 - snd (all_coords s ! i))\<^sup>2)
             \<le> sqrt ((0 - fst (all_coords s ! j))\<^sup>2 + (0 - snd (all_coords s ! j))\<^sup>2))
     \<and> (\<forall>j<i.
           sqrt ((0 - fst (all_coords s ! i))\<^sup>2 + (0 - snd (all_coords s ! i))\<^sup>2)
             < sqrt ((0 - fst (all_coords s ! j))\<^sup>2 + (0 - snd (all_coords s ! j))\<^sup>2))
     \<and> (\<forall>b'. min_dist_arg (s\<lparr> b_deg := b' \<rparr>) = Inr i)
     \<and> find_sightline rows s = Inr (s\<lparr> sightline := repair_sightline (getline rows (i + 1)) \<rparr>)"
proof -
  let ?ds = "cdist (0, 0) (all_coords s)"
  have ne: "?ds \<noteq> []" using assms(2) by (simp add: cdist_def)
  from argmin_spec [OF ne] obtain i where
    a: "argmin ?ds = Inr i" and l: "i < length ?ds" and
    mn: "\<forall>j<length ?ds. ?ds ! i \<le> ?ds ! j" and fst: "\<forall>j<i. ?ds ! i < ?ds ! j"
    by blast
  have len: "length ?ds = length (all_coords s)" by (simp add: cdist_def)
  have nth: "?ds ! j = sqrt ((0 - fst (all_coords s ! j))\<^sup>2 + (0 - snd (all_coords s ! j))\<^sup>2)"
    if "j < length (all_coords s)" for j
    using that by (simp add: cdist_def)
  have m: "min_dist_arg s = Inr i" using assms(1) a by (simp add: min_dist_arg_def)
  have mb: "\<forall>b'. min_dist_arg (s\<lparr> b_deg := b' \<rparr>) = Inr i"
    using assms(1) a by (simp add: min_dist_arg_def)
  have l': "i < length (all_coords s)" using l len by simp
  have mn': "\<forall>j<length (all_coords s).
           sqrt ((0 - fst (all_coords s ! i))\<^sup>2 + (0 - snd (all_coords s ! i))\<^sup>2)
             \<le> sqrt ((0 - fst (all_coords s ! j))\<^sup>2 + (0 - snd (all_coords s ! j))\<^sup>2)"
  proof (intro allI impI)
    fix j assume j: "j < length (all_coords s)"
    with mn len have "?ds ! i \<le> ?ds ! j" by simp
    then show "sqrt ((0 - fst (all_coords s ! i))\<^sup>2 + (0 - snd (all_coords s ! i))\<^sup>2)
             \<le> sqrt ((0 - fst (all_coords s ! j))\<^sup>2 + (0 - snd (all_coords s ! j))\<^sup>2)"
      unfolding nth [OF j] nth [OF l'] .
  qed
  have fst': "\<forall>j<i.
           sqrt ((0 - fst (all_coords s ! i))\<^sup>2 + (0 - snd (all_coords s ! i))\<^sup>2)
             < sqrt ((0 - fst (all_coords s ! j))\<^sup>2 + (0 - snd (all_coords s ! j))\<^sup>2)"
  proof (intro allI impI)
    fix j assume j: "j < i"
    with l' have jl: "j < length (all_coords s)" by simp
    from fst j have "?ds ! i < ?ds ! j" by simp
    then show "sqrt ((0 - fst (all_coords s ! i))\<^sup>2 + (0 - snd (all_coords s ! i))\<^sup>2)
             < sqrt ((0 - fst (all_coords s ! j))\<^sup>2 + (0 - snd (all_coords s ! j))\<^sup>2)"
      unfolding nth [OF jl] nth [OF l'] .
  qed
  note f = find_sightline_Inr [OF m, of rows]
  show ?thesis
    by (rule exI [of _ i])
       (rule conjI [OF m conjI [OF a conjI [OF l' conjI [OF mn' conjI [OF fst' conjI [OF mb f]]]]]])
qed

theorem uninitialized_bootstrap_witness:
  "l_deg scenario_start = None
   \<and> all_coords scenario_start = [(10, 0), (20, 0)]
   \<and> all_coords scenario_start \<noteq> []
   \<and> min_dist_arg scenario_start = Inr 0
   \<and> min_dist_arg (scenario_start\<lparr> b_deg := Some 90 \<rparr>) = Inr 0
   \<and> find_sightline scenario_rows scenario_start
       = Inr (scenario_start\<lparr> sightline := repair_sightline (getline scenario_rows (0 + 1)) \<rparr>)"
proof -
  have h1: "l_deg scenario_start = None"
    by (simp add: scenario_start_def fresh_def)
  have c: "all_coords scenario_start = [(10, 0), (20, 0)]"
    by (simp add: scenario_start_def fresh_def scenario_coords_def)
  have h2: "all_coords scenario_start \<noteq> []" by (simp add: c)
  have ev: "argmin (cdist (0, 0) (all_coords scenario_start)) = Inr 0"
    by (simp add: c argmin_def cdist_def)
  from uninitialized_bootstrap [OF h1 h2, of scenario_rows] obtain i where
    m: "min_dist_arg scenario_start = Inr i" and
    a: "argmin (cdist (0, 0) (all_coords scenario_start)) = Inr i" and
    mb: "\<forall>b'. min_dist_arg (scenario_start\<lparr> b_deg := b' \<rparr>) = Inr i" and
    f: "find_sightline scenario_rows scenario_start
          = Inr (scenario_start\<lparr> sightline := repair_sightline (getline scenario_rows (i + 1)) \<rparr>)"
    by (elim exE conjE)
  from a ev have i: "i = 0" by simp
  from h1 c h2 m [unfolded i] mb [unfolded i, THEN spec, of "Some 90"] f [unfolded i]
  show ?thesis by (intro conjI)
qed

subsection \<open>The longitude seam\<close>

text \<open>Each of the three constants is a 53-bit integer times a power of two and lies
  within half a unit in the last place of its decimal, so it is the double that the
  literal denotes.\<close>

lemma doubles_nearest:
  "double_359_9 = 6331427757385318 / 2 ^ 44
   \<and> (2 :: nat) ^ 52 \<le> 6331427757385318 \<and> (6331427757385318 :: nat) < 2 ^ 53
   \<and> \<bar>double_359_9 - 3599/10\<bar> < 1 / 2 ^ 45
   \<and> (2 :: nat) ^ 52 \<le> 7205759403792794 \<and> (7205759403792794 :: nat) < 2 ^ 53
   \<and> \<bar>double_0_1 - 1/10\<bar> < 1 / 2 ^ 57
   \<and> \<bar>double_0_2 - 2/10\<bar> < 1 / 2 ^ 56"
  by (simp add: double_359_9_def double_0_1_def double_0_2_def abs_if)





end
